theory Spec2Isabelle
  imports Main
begin

section \<open>JavaScript values used by the attachment pipeline\<close>

text \<open>
  A value caught by a \<^verbatim>\<open>catch\<close> clause is either an \<^verbatim>\<open>Error\<close> object, of which the code
  reads \<^verbatim>\<open>code\<close> (set by Node on file-system errors, otherwise undefined) and
  \<^verbatim>\<open>message\<close>, or any other value, of which the code only takes \<^verbatim>\<open>String(error)\<close>;
  \<open>NonError\<close> carries that rendering.
\<close>

datatype thrown = Error "string option" string | NonError string

text \<open>\<^verbatim>\<open>error instanceof Error ? error.message : String(error)\<close>\<close>

fun errorMessage :: "thrown \<Rightarrow> string" where
  "errorMessage (Error c m) = m"
| "errorMessage (NonError s) = s"

text \<open>
  Optional string fields are \<open>string option\<close>, \<open>None\<close> for \<^verbatim>\<open>undefined\<close>. A string is
  truthy when it is not empty; \<open>orElse a b\<close> is \<^verbatim>\<open>a || b\<close>.
\<close>

fun truthy :: "string option \<Rightarrow> bool" where
  "truthy None = False"
| "truthy (Some s) = (s \<noteq> [])"

fun orElse :: "string option \<Rightarrow> string \<Rightarrow> string" where
  "orElse None d = d"
| "orElse (Some s) d = (if s = [] then d else s)"

text \<open>\<^verbatim>\<open>String.prototype.startsWith\<close> and \<^verbatim>\<open>String.prototype.includes\<close> (named \<open>js_includes\<close> here).\<close>

fun startsWith :: "string \<Rightarrow> string \<Rightarrow> bool" where
  "startsWith s [] = True"
| "startsWith [] (c # cs) = False"
| "startsWith (x # xs) (c # cs) = (x = c \<and> startsWith xs cs)"

fun js_includes :: "string \<Rightarrow> string \<Rightarrow> bool" where
  "js_includes [] sub = (sub = [])"
| "js_includes (x # xs) sub = (startsWith (x # xs) sub \<or> js_includes xs sub)"

text \<open>
  A non-negative integer in a template literal: its decimal digits (the rendering
  JavaScript gives every integer below \<open>10^21\<close>).
\<close>

definition digit :: "nat \<Rightarrow> char" where
  "digit d = ''0123456789'' ! d"

fun showNat :: "nat \<Rightarrow> string" where
  "showNat n = (if n < 10 then [digit n] else showNat (n div 10) @ [digit (n mod 10)])"

declare showNat.simps [simp del]

section \<open>The outside world\<close>

text \<open>
  Every call that leaves the program is recorded in a trace, and the answer of the file
  system or of the remote service may depend on everything that happened before: each
  such collaborator is a function of the trace so far and of the call's arguments.
\<close>

record stats =
  st_isFile :: bool
  st_size :: nat

datatype attachmentApi =
    BankTransactionAttachment | InvoiceAttachment | CreditNoteAttachment

datatype deepLinkType = CREDIT_NOTE | INVOICE

text \<open>The \<^verbatim>\<open>Account\<close> type of the client library: every field is optional.\<close>

record Account =
  a_accountID :: "string option"
  a_code :: "string option"
  a_name :: "string option"
  a_type :: "string option"
  a_description :: "string option"
  a_taxType :: "string option"
  a_enablePaymentsToAccount :: "bool option"
  a_bankAccountNumber :: "string option"
  a_bankAccountType :: "string option"
  a_showInExpenseClaims :: "bool option"

text \<open>
  An upload call \<^verbatim>\<open>createXAttachmentByFileName(tenantId, id, fileName, body, includeOnline?)\<close>.
\<close>

record uploadCall =
  up_api :: attachmentApi
  up_tenantId :: string
  up_resourceId :: string
  up_fileName :: string
  up_body :: string
  up_includeOnline :: "bool option"

datatype event =
    Stat string
  | ReadFile string
  | Upload uploadCall
  | GetDeepLink deepLinkType string
  | Authenticate
  | GetAccount string string
  | UpdateAccount string string Account
  | CreateAccount string Account

record env =
  tenantId :: string
  resolve :: "string \<Rightarrow> string"
  basename :: "string \<Rightarrow> string"
  detectMimeType :: "string \<Rightarrow> string"
  toBase64 :: "string \<Rightarrow> string"
  fromBase64 :: "string \<Rightarrow> string"
  stat :: "event list \<Rightarrow> string \<Rightarrow> thrown + stats"
  readFile :: "event list \<Rightarrow> string \<Rightarrow> thrown + string"
  createAttachmentByFileName :: "event list \<Rightarrow> uploadCall \<Rightarrow> thrown option"
  getDeepLink :: "event list \<Rightarrow> deepLinkType \<Rightarrow> string \<Rightarrow> thrown + string"
  bankTransactionDeepLink :: "string \<Rightarrow> string \<Rightarrow> thrown + string"
  authenticate :: "event list \<Rightarrow> thrown option"
  api_getAccount :: "event list \<Rightarrow> string \<Rightarrow> string \<Rightarrow> thrown + Account list option"
  api_updateAccount ::
    "event list \<Rightarrow> string \<Rightarrow> string \<Rightarrow> Account \<Rightarrow> thrown + Account list option"
  api_createAccount :: "event list \<Rightarrow> string \<Rightarrow> Account \<Rightarrow> thrown + Account list option"
  formatError :: "thrown \<Rightarrow> string"
  ensureError :: "thrown \<Rightarrow> thrown"

text \<open>
  The helpers \<^verbatim>\<open>detectMimeType\<close>, \<^verbatim>\<open>formatError\<close>, \<^verbatim>\<open>ensureError\<close>, the deep-link builders
  and the client are collaborators of the code verified here; together with Node's
  \<^verbatim>\<open>path\<close>, \<^verbatim>\<open>fs\<close> and \<^verbatim>\<open>Buffer\<close> they are the fields of \<open>env\<close>, so that every
  theorem holds for all of their behaviours. A remote call answers with the
  \<^verbatim>\<open>accounts\<close> array of the response body (\<open>None\<close> when the body has none) or throws;
  an upload answers \<open>None\<close> when it resolves and \<open>Some e\<close> when it throws \<open>e\<close>.
\<close>

section \<open>File Loader: \<^verbatim>\<open>src/helpers/file-to-base64.ts\<close>\<close>

definition MAX_FILE_SIZE :: nat where
  "MAX_FILE_SIZE = 10 * 1024 * 1024"

record FileToBase64Result =
  fd_base64Content :: string
  fd_mimeType :: string
  fd_fileName :: string

text \<open>
  \<^verbatim>\<open>Math.round(stats.size / 1024 / 1024)\<close>: dividing by a power of two is exact in
  floating point, and \<^verbatim>\<open>Math.round\<close> rounds halves up.
\<close>

definition roundMB :: "nat \<Rightarrow> nat" where
  "roundMB sz = (sz + 524288) div 1048576"

text \<open>The \<^verbatim>\<open>catch\<close> block of \<^verbatim>\<open>fileToBase64\<close>: what is thrown to the caller.\<close>

fun fileToBase64_catch :: "string \<Rightarrow> thrown \<Rightarrow> thrown" where
  "fileToBase64_catch filePath (Error c m) =
     (if c = Some ''ENOENT'' then Error None (''File not found: '' @ filePath)
      else if c = Some ''EACCES'' then Error None (''Permission denied: '' @ filePath)
      else if js_includes m ''too large'' \<or> js_includes m ''not a file'' then Error c m
      else Error None (''Unable to read file: '' @ filePath @ '' - '' @ m))"
| "fileToBase64_catch filePath (NonError s) =
     Error None (''Unable to read file: '' @ filePath @ '' - '' @ s)"

definition fileToBase64 ::
  "env \<Rightarrow> event list \<Rightarrow> string \<Rightarrow> (thrown + FileToBase64Result) \<times> event list" where
  "fileToBase64 w tr filePath =
     (let resolvedPath = resolve w filePath;
          tr1 = tr @ [Stat resolvedPath]
      in case stat w tr resolvedPath of
           Inl e \<Rightarrow> (Inl (fileToBase64_catch filePath e), tr1)
         | Inr st \<Rightarrow>
             if \<not> st_isFile st then
               (Inl (fileToBase64_catch filePath
                      (Error None (''Path is not a file: '' @ filePath))), tr1)
             else if st_size st > MAX_FILE_SIZE then
               (Inl (fileToBase64_catch filePath
                      (Error None (''File too large: '' @ showNat (roundMB (st_size st))
                                     @ ''MB (max: 10MB)''))), tr1)
             else
               (let tr2 = tr1 @ [ReadFile resolvedPath]
                in case readFile w tr1 resolvedPath of
                     Inl e \<Rightarrow> (Inl (fileToBase64_catch filePath e), tr2)
                   | Inr buffer \<Rightarrow>
                       (let fileName = basename w resolvedPath
                        in (Inr \<lparr> fd_base64Content = toBase64 w buffer,
                                  fd_mimeType = detectMimeType w fileName,
                                  fd_fileName = fileName \<rparr>, tr2))))"

section \<open>Attachment Normalizer: \<^verbatim>\<open>src/helpers/process-attachments.ts\<close>\<close>

record AttachmentInput =
  in_fileName :: "string option"
  in_mimeType :: "string option"
  in_filePath :: "string option"
  in_base64Content :: "string option"

record ProcessedAttachment =
  pa_fileName :: string
  pa_mimeType :: string
  pa_base64Content :: string

text \<open>
  The body of the \<^verbatim>\<open>try\<close> block for one attachment. A field is read with \<open>the\<close> only
  under the truthiness test that guards it in the source.
\<close>

definition processAttachment ::
  "env \<Rightarrow> event list \<Rightarrow> AttachmentInput \<Rightarrow> (thrown + ProcessedAttachment) \<times> event list" where
  "processAttachment w tr attachment =
     (if truthy (in_filePath attachment) then
        (case fileToBase64 w tr (the (in_filePath attachment)) of
           (Inl e, tr') \<Rightarrow> (Inl e, tr')
         | (Inr fileData, tr') \<Rightarrow>
             (Inr \<lparr> pa_fileName = orElse (in_fileName attachment) (fd_fileName fileData),
                     pa_mimeType = orElse (in_mimeType attachment) (fd_mimeType fileData),
                     pa_base64Content = fd_base64Content fileData \<rparr>, tr'))
      else if truthy (in_base64Content attachment) then
        (if \<not> truthy (in_fileName attachment) then
           (Inl (Error None ''fileName is required when using base64Content''), tr)
         else
           (let fileName = the (in_fileName attachment)
            in (Inr \<lparr> pa_fileName = fileName,
                      pa_mimeType = orElse (in_mimeType attachment) (detectMimeType w fileName),
                      pa_base64Content = the (in_base64Content attachment) \<rparr>, tr)))
      else
        (Inl (Error None ''Either filePath or base64Content must be provided''), tr))"

text \<open>The \<^verbatim>\<open>for\<close> loop with its accumulator; the first failing item aborts the batch.\<close>

fun processLoop ::
  "env \<Rightarrow> event list \<Rightarrow> ProcessedAttachment list \<Rightarrow> AttachmentInput list
     \<Rightarrow> (thrown + ProcessedAttachment list) \<times> event list" where
  "processLoop w tr processedAttachments [] = (Inr processedAttachments, tr)"
| "processLoop w tr processedAttachments (attachment # rest) =
     (case processAttachment w tr attachment of
        (Inl e, tr') \<Rightarrow>
          (Inl (Error None (''Failed to process attachment: '' @ errorMessage e)), tr')
      | (Inr p, tr') \<Rightarrow> processLoop w tr' (processedAttachments @ [p]) rest)"

definition processAttachments ::
  "env \<Rightarrow> event list \<Rightarrow> AttachmentInput list option
     \<Rightarrow> (thrown + ProcessedAttachment list) \<times> event list" where
  "processAttachments w tr attachments =
     (case attachments of
        None \<Rightarrow> (Inr [], tr)
      | Some as \<Rightarrow> if as = [] then (Inr [], tr) else processLoop w tr [] as)"

subsection \<open>The boundary schema: \<^verbatim>\<open>src/schemas/attachment.schema.ts\<close>\<close>

text \<open>
  The two refinements of \<^verbatim>\<open>attachmentSchema\<close>, each with the message of its issue; an
  input is accepted when no issue is raised. The tools that declare
  \<^verbatim>\<open>attachmentsArraySchema\<close> receive accepted inputs only.
\<close>

definition attachmentSchema_issues :: "AttachmentInput \<Rightarrow> string list" where
  "attachmentSchema_issues data =
     (if truthy (in_filePath data) \<or> truthy (in_base64Content data) then []
      else [''Either filePath or base64Content must be provided''])
     @ (if truthy (in_base64Content data) \<and> \<not> truthy (in_fileName data)
        then [''fileName is required when using base64Content''] else [])"

section \<open>Upload Executor: the loop shared by the tools\<close>

record AttachmentUploadResult =
  r_fileName :: string
  r_status :: string
  r_error :: "string option"

text \<open>
  One remote call per attachment, each in its own \<^verbatim>\<open>try\<close>; the outcome is pushed onto
  \<^verbatim>\<open>attachmentResults\<close> and the loop goes on. The loop reads only \<^verbatim>\<open>fileName\<close> and
  \<^verbatim>\<open>base64Content\<close> of an attachment, so it runs over these pairs; \<open>call\<close> builds the
  arguments of the tool's own \<^verbatim>\<open>createXAttachmentByFileName\<close>.
\<close>

fun uploadLoop ::
  "env \<Rightarrow> (string \<Rightarrow> string \<Rightarrow> uploadCall) \<Rightarrow> event list \<Rightarrow> AttachmentUploadResult list
     \<Rightarrow> (string \<times> string) list \<Rightarrow> AttachmentUploadResult list \<times> event list" where
  "uploadLoop w call tr attachmentResults [] = (attachmentResults, tr)"
| "uploadLoop w call tr attachmentResults ((fileName, base64Content) # rest) =
     (let c = call fileName (fromBase64 w base64Content)
      in case createAttachmentByFileName w tr c of
           None \<Rightarrow>
             uploadLoop w call (tr @ [Upload c])
               (attachmentResults @
                  [\<lparr> r_fileName = fileName, r_status = ''success'', r_error = None \<rparr>]) rest
         | Some e \<Rightarrow>
             uploadLoop w call (tr @ [Upload c])
               (attachmentResults @
                  [\<lparr> r_fileName = fileName, r_status = ''failed'',
                     r_error = Some (errorMessage e) \<rparr>]) rest)"

text \<open>
  The outer \<^verbatim>\<open>try\<close> of the tools that normalise first: \<^verbatim>\<open>processAttachments\<close>, then the
  loop; a failure of the normaliser becomes the single entry \<^verbatim>\<open>unknown\<close>.
\<close>

definition processAndUpload ::
  "env \<Rightarrow> (string \<Rightarrow> string \<Rightarrow> uploadCall) \<Rightarrow> event list \<Rightarrow> AttachmentInput list option
     \<Rightarrow> AttachmentUploadResult list \<times> event list" where
  "processAndUpload w call tr attachments =
     (case processAttachments w tr attachments of
        (Inr processedAttachments, tr') \<Rightarrow>
          uploadLoop w call tr' []
            (map (\<lambda>a. (pa_fileName a, pa_base64Content a)) processedAttachments)
      | (Inl e, tr') \<Rightarrow>
          ([\<lparr> r_fileName = ''unknown'', r_status = ''failed'',
              r_error = Some (''Processing failed: '' @ errorMessage e) \<rparr>], tr'))"

section \<open>Tool Facade\<close>

text \<open>
  The envelope \<^verbatim>\<open>XeroClientResponse<T>\<close>, \<open>None\<close> for \<^verbatim>\<open>null\<close>, and the value every
  tool returns, \<^verbatim>\<open>{ content: [{ type, text }] }\<close>.
\<close>

record 'a XeroClientResponse =
  result :: "'a option"
  isError :: bool
  error :: "string option"

record TextContent =
  c_type :: string
  c_text :: string

record ToolResult =
  content :: "TextContent list"

definition textResult :: "string \<Rightarrow> ToolResult" where
  "textResult t = \<lparr> content = [\<lparr> c_type = ''text'', c_text = t \<rparr>] \<rparr>"

text \<open>
  Template literals: \<^verbatim>\<open>${x}\<close> of an optional field prints \<^verbatim>\<open>undefined\<close> when it is
  missing, and of the envelope's \<^verbatim>\<open>error\<close> prints \<^verbatim>\<open>null\<close> when it is null.
\<close>

fun tpl :: "string option \<Rightarrow> string" where
  "tpl None = ''undefined''"
| "tpl (Some s) = s"

fun tplNull :: "string option \<Rightarrow> string" where
  "tplNull None = ''null''"
| "tplNull (Some s) = s"

text \<open>
  \<^verbatim>\<open>Array.prototype.join\<close> on strings, and on an array that may hold \<^verbatim>\<open>null\<close> (printed
  as the empty string); \<^verbatim>\<open>.filter(Boolean)\<close> drops \<^verbatim>\<open>null\<close> and the empty string.
\<close>

fun js_join :: "string \<Rightarrow> string list \<Rightarrow> string" where
  "js_join sep [] = []"
| "js_join sep [x] = x"
| "js_join sep (x # y # ys) = x @ sep @ js_join sep (y # ys)"

definition joinNullable :: "string \<Rightarrow> string option list \<Rightarrow> string" where
  "joinNullable sep xs = js_join sep (map (\<lambda>x. case x of None \<Rightarrow> [] | Some s \<Rightarrow> s) xs)"

definition filterBoolean :: "string option list \<Rightarrow> string list" where
  "filterBoolean xs = map the (filter truthy xs)"

text \<open>The two optional lines that close every report.\<close>

definition attachmentsLine :: "AttachmentUploadResult list \<Rightarrow> string option" where
  "attachmentsLine attachmentResults =
     (if length attachmentResults > 0 then
        Some (''Attachments: '' @
              js_join '', '' (map (\<lambda>r. r_fileName r @ '' ('' @ r_status r @ '')'') attachmentResults))
      else None)"

definition linkLine :: "string option \<Rightarrow> string option" where
  "linkLine deepLink = (if truthy deepLink then Some (''Link to view: '' @ the deepLink) else None)"

text \<open>\<^verbatim>\<open>attachments && attachments.length > 0 && id\<close>\<close>

definition attachmentsWanted :: "'a list option \<Rightarrow> string option \<Rightarrow> bool" where
  "attachmentsWanted attachments ident =
     ((case attachments of None \<Rightarrow> False | Some as \<Rightarrow> length as > 0) \<and> truthy ident)"

text \<open>Reading a property of \<^verbatim>\<open>null\<close> throws a \<^verbatim>\<open>TypeError\<close>.\<close>

definition nullTypeError :: "string \<Rightarrow> thrown" where
  "nullTypeError prop =
     Error None (''Cannot read properties of null (reading '' @ [CHR 0x27] @ prop @ [CHR 0x27] @ '')'')"

subsection \<open>\<^verbatim>\<open>src/tools/create/create-bank-transaction.tool.ts\<close>\<close>

text \<open>
  The fields of the created entity that the tool reads; \<open>bt_contactName\<close> is
  \<^verbatim>\<open>contact?.name\<close>, \<open>bt_total\<close> the number as a template literal prints it, and
  \<open>bt_bankAccountID\<close> is \<^verbatim>\<open>bankAccount.accountID\<close> (\<^verbatim>\<open>bankAccount\<close> is not optional
  in the client library's type).
\<close>

record BankTransaction =
  bankTransactionID :: "string option"
  bt_date :: "string option"
  bt_contactName :: "string option"
  bt_total :: "string option"
  bt_status :: "string option"
  bt_bankAccountID :: "string option"

definition bankTransactionUpload :: "env \<Rightarrow> string \<Rightarrow> string \<Rightarrow> string \<Rightarrow> uploadCall" where
  "bankTransactionUpload w ident fileName body =
     \<lparr> up_api = BankTransactionAttachment, up_tenantId = tenantId w, up_resourceId = ident,
       up_fileName = fileName, up_body = body, up_includeOnline = None \<rparr>"

text \<open>Lines 53 to 55: the deep link, built only when both identifiers are there.\<close>

definition bankTransactionLink :: "env \<Rightarrow> BankTransaction \<Rightarrow> thrown + string option" where
  "bankTransactionLink w bankTransaction =
     (if truthy (bt_bankAccountID bankTransaction) \<and> truthy (bankTransactionID bankTransaction)
      then (case bankTransactionDeepLink w (the (bt_bankAccountID bankTransaction))
                   (the (bankTransactionID bankTransaction)) of
              Inl e \<Rightarrow> Inl e
            | Inr link \<Rightarrow> Inr (Some link))
      else Inr None)"

text \<open>Lines 57 to 81: \<^verbatim>\<open>attachmentResults\<close>.\<close>

definition bankTransactionAttachments ::
  "env \<Rightarrow> event list \<Rightarrow> BankTransaction \<Rightarrow> AttachmentInput list option
     \<Rightarrow> AttachmentUploadResult list \<times> event list" where
  "bankTransactionAttachments w tr bankTransaction attachments =
     (if attachmentsWanted attachments (bankTransactionID bankTransaction) then
        processAndUpload w
          (bankTransactionUpload w (the (bankTransactionID bankTransaction))) tr attachments
      else ([], tr))"

text \<open>
  Lines 83 to 99: the report. The array of lines starts with the six lines of the
  entity, named \<open>bankTransactionLines\<close> here.
\<close>

definition bankTransactionLines :: "BankTransaction \<Rightarrow> string list" where
  "bankTransactionLines bankTransaction =
     [''Bank transaction successfully:'',
      ''ID: '' @ tpl (bankTransactionID bankTransaction),
      ''Date: '' @ tpl (bt_date bankTransaction),
      ''Contact: '' @ tpl (bt_contactName bankTransaction),
      ''Total: '' @ tpl (bt_total bankTransaction),
      ''Status: '' @ tpl (bt_status bankTransaction)]"

definition bankTransactionText ::
  "BankTransaction \<Rightarrow> AttachmentUploadResult list \<Rightarrow> string option \<Rightarrow> string" where
  "bankTransactionText bankTransaction attachmentResults deepLink =
     js_join [CHR 0x0A] (filterBoolean
       (map Some (bankTransactionLines bankTransaction) @
        [attachmentsLine attachmentResults,
         linkLine deepLink]))"

text \<open>
  The handler of the tool, after the entity handler \<^verbatim>\<open>createXeroBankTransaction\<close> has
  answered with the envelope \<open>res\<close>; the other arguments of the tool go to that call
  only. The tool's own schema admits by-content attachments only; they are passed to
  \<^verbatim>\<open>processAttachments\<close> at its input type.
\<close>

definition CreateBankTransactionTool ::
  "env \<Rightarrow> BankTransaction XeroClientResponse \<Rightarrow> AttachmentInput list option \<Rightarrow> event list
     \<Rightarrow> (thrown + ToolResult) \<times> event list" where
  "CreateBankTransactionTool w res attachments tr =
     (if isError res then
        (Inr (textResult (''Error creating bank transaction: '' @ tplNull (error res))), tr)
      else case result res of
        None \<Rightarrow> (Inl (nullTypeError ''bankAccount''), tr)
      | Some bankTransaction \<Rightarrow>
          (case bankTransactionLink w bankTransaction of
             Inl e \<Rightarrow> (Inl e, tr)
           | Inr deepLink \<Rightarrow>
               (case bankTransactionAttachments w tr bankTransaction attachments of
                  (attachmentResults, tr') \<Rightarrow>
                    (Inr (textResult
                           (bankTransactionText bankTransaction attachmentResults deepLink)),
                     tr'))))"

subsection \<open>\<^verbatim>\<open>src/tools/update/update-invoice.tool.ts\<close>\<close>

record Invoice =
  invoiceID :: "string option"
  inv_contactName :: "string option"
  inv_type :: "string option"
  inv_reference :: "string option"
  inv_total :: "string option"
  inv_status :: "string option"

definition invoiceUpload :: "env \<Rightarrow> string \<Rightarrow> string \<Rightarrow> string \<Rightarrow> uploadCall" where
  "invoiceUpload w ident fileName body =
     \<lparr> up_api = InvoiceAttachment, up_tenantId = tenantId w, up_resourceId = ident,
       up_fileName = fileName, up_body = body, up_includeOnline = Some True \<rparr>"

text \<open>
  Lines 103 to 105: \<^verbatim>\<open>await getDeepLink(DeepLinkType.INVOICE, invoice.invoiceID)\<close>, a
  call that may reject.
\<close>

definition awaitDeepLink ::
  "env \<Rightarrow> event list \<Rightarrow> deepLinkType \<Rightarrow> string option \<Rightarrow> (thrown + string option) \<times> event list" where
  "awaitDeepLink w tr ty ident =
     (if truthy ident then
        (case getDeepLink w tr ty (the ident) of
           Inl e \<Rightarrow> (Inl e, tr @ [GetDeepLink ty (the ident)])
         | Inr link \<Rightarrow> (Inr (Some link), tr @ [GetDeepLink ty (the ident)]))
      else (Inr None, tr))"

definition invoiceAttachments ::
  "env \<Rightarrow> event list \<Rightarrow> Invoice \<Rightarrow> AttachmentInput list option
     \<Rightarrow> AttachmentUploadResult list \<times> event list" where
  "invoiceAttachments w tr invoice attachments =
     (if attachmentsWanted attachments (invoiceID invoice) then
        processAndUpload w (invoiceUpload w (the (invoiceID invoice))) tr attachments
      else ([], tr))"

text \<open>
  Lines 134 to 151; this tool joins without \<^verbatim>\<open>.filter(Boolean)\<close>. The seven lines of
  the entity are \<open>invoiceLines\<close>.
\<close>

definition invoiceLines :: "Invoice \<Rightarrow> string list" where
  "invoiceLines invoice =
     [''Invoice updated successfully:'',
      ''ID: '' @ tpl (invoiceID invoice),
      ''Contact: '' @ tpl (inv_contactName invoice),
      ''Type: '' @ tpl (inv_type invoice),
      ''Reference: '' @ orElse (inv_reference invoice) ''None'',
      ''Total: '' @ tpl (inv_total invoice),
      ''Status: '' @ tpl (inv_status invoice)]"

definition invoiceText ::
  "Invoice \<Rightarrow> AttachmentUploadResult list \<Rightarrow> string option \<Rightarrow> string" where
  "invoiceText invoice attachmentResults deepLink =
     joinNullable [CHR 0x0A]
       (map Some (invoiceLines invoice) @
        [attachmentsLine attachmentResults,
         linkLine deepLink])"

definition UpdateInvoiceTool ::
  "env \<Rightarrow> Invoice XeroClientResponse \<Rightarrow> AttachmentInput list option \<Rightarrow> event list
     \<Rightarrow> (thrown + ToolResult) \<times> event list" where
  "UpdateInvoiceTool w res attachments tr =
     (if isError res then
        (Inr (textResult (''Error updating invoice: '' @ tplNull (error res))), tr)
      else case result res of
        None \<Rightarrow> (Inl (nullTypeError ''invoiceID''), tr)
      | Some invoice \<Rightarrow>
          (case awaitDeepLink w tr INVOICE (invoiceID invoice) of
             (Inl e, tr1) \<Rightarrow> (Inl e, tr1)
           | (Inr deepLink, tr1) \<Rightarrow>
               (case invoiceAttachments w tr1 invoice attachments of
                  (attachmentResults, tr') \<Rightarrow>
                    (Inr (textResult (invoiceText invoice attachmentResults deepLink)), tr'))))"

subsection \<open>The credit-note tool that uploads without normalising\<close>

record CreditNote =
  creditNoteID :: "string option"
  cn_contactName :: "string option"
  cn_total :: "string option"
  cn_status :: "string option"

text \<open>An attachment as this tool's own schema has it.\<close>

record InlineAttachment =
  il_fileName :: string
  il_mimeType :: "string option"
  il_base64Content :: string

definition creditNoteUpload :: "env \<Rightarrow> string \<Rightarrow> string \<Rightarrow> string \<Rightarrow> uploadCall" where
  "creditNoteUpload w ident fileName body =
     \<lparr> up_api = CreditNoteAttachment, up_tenantId = tenantId w, up_resourceId = ident,
       up_fileName = fileName, up_body = body, up_includeOnline = Some True \<rparr>"

text \<open>Lines 50 to 68.\<close>

definition creditNoteAttachments ::
  "env \<Rightarrow> event list \<Rightarrow> CreditNote \<Rightarrow> InlineAttachment list option
     \<Rightarrow> AttachmentUploadResult list \<times> event list" where
  "creditNoteAttachments w tr creditNote attachments =
     (if attachmentsWanted attachments (creditNoteID creditNote) then
        uploadLoop w (creditNoteUpload w (the (creditNoteID creditNote))) tr []
          (map (\<lambda>a. (il_fileName a, il_base64Content a)) (the attachments))
      else ([], tr))"

text \<open>Lines 70 to 87; the five lines of the entity are \<open>creditNoteLines\<close>.\<close>

definition creditNoteLines :: "CreditNote \<Rightarrow> string list" where
  "creditNoteLines creditNote =
     [''Credit note created successfully:'',
      ''ID: '' @ tpl (creditNoteID creditNote),
      ''Contact: '' @ tpl (cn_contactName creditNote),
      ''Total: '' @ tpl (cn_total creditNote),
      ''Status: '' @ tpl (cn_status creditNote)]"

definition creditNoteText ::
  "CreditNote \<Rightarrow> AttachmentUploadResult list \<Rightarrow> string option \<Rightarrow> string" where
  "creditNoteText creditNote attachmentResults deepLink =
     js_join [CHR 0x0A] (filterBoolean
       (map Some (creditNoteLines creditNote) @
        [attachmentsLine attachmentResults,
         linkLine deepLink]))"

definition CreateCreditNoteTool ::
  "env \<Rightarrow> CreditNote XeroClientResponse \<Rightarrow> InlineAttachment list option \<Rightarrow> event list
     \<Rightarrow> (thrown + ToolResult) \<times> event list" where
  "CreateCreditNoteTool w res attachments tr =
     (if isError res then
        (Inr (textResult (''Error creating credit note: '' @ tplNull (error res))), tr)
      else case result res of
        None \<Rightarrow> (Inl (nullTypeError ''creditNoteID''), tr)
      | Some creditNote \<Rightarrow>
          (case awaitDeepLink w tr CREDIT_NOTE (creditNoteID creditNote) of
             (Inl e, tr1) \<Rightarrow> (Inl e, tr1)
           | (Inr deepLink, tr1) \<Rightarrow>
               (case creditNoteAttachments w tr1 creditNote attachments of
                  (attachmentResults, tr') \<Rightarrow>
                    (Inr (textResult (creditNoteText creditNote attachmentResults deepLink)),
                     tr'))))"

section \<open>Entity Handlers\<close>

text \<open>\<^verbatim>\<open>response.body.accounts?.[0]\<close>\<close>

fun firstAccount :: "Account list option \<Rightarrow> Account option" where
  "firstAccount None = None"
| "firstAccount (Some []) = None"
| "firstAccount (Some (a # as)) = Some a"

definition success :: "'a \<Rightarrow> 'a XeroClientResponse" where
  "success x = \<lparr> result = Some x, isError = False, error = None \<rparr>"

definition failure :: "string \<Rightarrow> 'a XeroClientResponse" where
  "failure msg = \<lparr> result = None, isError = True, error = Some msg \<rparr>"

subsection \<open>\<^verbatim>\<open>src/handlers/get-xero-account.handler.ts\<close>\<close>

definition getAccount ::
  "env \<Rightarrow> event list \<Rightarrow> string \<Rightarrow> (thrown + Account option) \<times> event list" where
  "getAccount w tr accountId =
     (case authenticate w tr of
        Some e \<Rightarrow> (Inl e, tr @ [Authenticate])
      | None \<Rightarrow>
          (let tr1 = tr @ [Authenticate];
               tr2 = tr1 @ [GetAccount (tenantId w) accountId]
           in case api_getAccount w tr1 (tenantId w) accountId of
                Inl e \<Rightarrow> (Inl e, tr2)
              | Inr accounts \<Rightarrow> (Inr (firstAccount accounts), tr2)))"

definition getXeroAccount ::
  "env \<Rightarrow> event list \<Rightarrow> string \<Rightarrow> Account XeroClientResponse \<times> event list" where
  "getXeroAccount w tr accountId =
     (case getAccount w tr accountId of
        (Inl e, tr') \<Rightarrow> (failure (formatError w e), tr')
      | (Inr None, tr') \<Rightarrow> (failure (formatError w (Error None ''Account not found.'')), tr')
      | (Inr (Some account), tr') \<Rightarrow> (success account, tr'))"

subsection \<open>\<^verbatim>\<open>src/handlers/create-xero-account.handler.ts\<close>\<close>

record CreateAccountArgs =
  arg_code :: string
  arg_name :: string
  arg_type :: string
  arg_accountId :: "string option"
  arg_description :: "string option"
  arg_taxType :: "string option"
  arg_enablePaymentsToAccount :: "bool option"
  arg_bankAccountNumber :: "string option"
  arg_bankAccountType :: "string option"
  arg_showInExpenseClaims :: "bool option"

definition createAccount ::
  "env \<Rightarrow> event list \<Rightarrow> CreateAccountArgs \<Rightarrow> (thrown + Account option) \<times> event list" where
  "createAccount w tr args =
     (case authenticate w tr of
        Some e \<Rightarrow> (Inl e, tr @ [Authenticate])
      | None \<Rightarrow>
          (let tr1 = tr @ [Authenticate];
               account = \<lparr> a_accountID = None,
                           a_code = Some (arg_code args),
                           a_name = Some (arg_name args),
                           a_type = Some (arg_type args),
                           a_description = arg_description args,
                           a_taxType = arg_taxType args,
                           a_enablePaymentsToAccount = arg_enablePaymentsToAccount args,
                           a_bankAccountNumber = arg_bankAccountNumber args,
                           a_bankAccountType = arg_bankAccountType args,
                           a_showInExpenseClaims = arg_showInExpenseClaims args \<rparr>
           in if truthy (arg_accountId args) then
                (let tr2 = tr1 @ [UpdateAccount (tenantId w) (the (arg_accountId args)) account]
                 in case api_updateAccount w tr1 (tenantId w) (the (arg_accountId args)) account of
                      Inl e \<Rightarrow> (Inl e, tr2)
                    | Inr accounts \<Rightarrow> (Inr (firstAccount accounts), tr2))
              else
                (let tr2 = tr1 @ [CreateAccount (tenantId w) account]
                 in case api_createAccount w tr1 (tenantId w) account of
                      Inl e \<Rightarrow> (Inl e, tr2)
                    | Inr accounts \<Rightarrow> (Inr (firstAccount accounts), tr2))))"

definition createXeroAccount ::
  "env \<Rightarrow> event list \<Rightarrow> CreateAccountArgs \<Rightarrow> Account XeroClientResponse \<times> event list" where
  "createXeroAccount w tr args =
     (case createAccount w tr args of
        (Inl e, tr') \<Rightarrow> (failure (formatError w e), tr')
      | (Inr None, tr') \<Rightarrow>
          (failure (formatError w (Error None ''Account creation/update failed.'')), tr')
      | (Inr (Some account), tr') \<Rightarrow> (success account, tr'))"

subsection \<open>\<^verbatim>\<open>src/tools/create/create-account.tool.ts\<close>\<close>

text \<open>Lines 54 to 98, the body of the \<^verbatim>\<open>try\<close>.\<close>

definition createAccountTry ::
  "env \<Rightarrow> CreateAccountArgs \<Rightarrow> event list \<Rightarrow> (thrown + ToolResult) \<times> event list" where
  "createAccountTry w args tr =
     (case createXeroAccount w tr args of
        (response, tr') \<Rightarrow>
          if isError response then
            (Inr (textResult
                   (''Error '' @ (if truthy (arg_accountId args) then ''updating'' else ''creating'')
                      @ '' account: '' @ tplNull (error response))), tr')
          else
            (case result response of
               None \<Rightarrow> (Inl (nullTypeError ''accountID''), tr')
             | Some account \<Rightarrow>
                 (let deepLink = (if truthy (a_accountID account) then None else None)
                  in (Inr (textResult (js_join [CHR 0x0A] (filterBoolean
                        [Some (''Account ''
                                 @ (if truthy (arg_accountId args) then ''updated'' else ''created'')
                                 @ '': '' @ tpl (a_name account)
                                 @ '' (ID: '' @ tpl (a_accountID account) @ '')''),
                         Some (''Code: '' @ tpl (a_code account)),
                         Some (''Type: '' @ tpl (a_type account)),
                         linkLine deepLink]))), tr'))))"

text \<open>The whole handler: whatever the body throws is turned into a text.\<close>

definition CreateAccountTool ::
  "env \<Rightarrow> CreateAccountArgs \<Rightarrow> event list \<Rightarrow> (thrown + ToolResult) \<times> event list" where
  "CreateAccountTool w args tr =
     (case createAccountTry w args tr of
        (Inr r, tr') \<Rightarrow> (Inr r, tr')
      | (Inl e, tr') \<Rightarrow>
          (Inr (textResult
                 (''Error '' @ (if truthy (arg_accountId args) then ''updating'' else ''creating'')
                    @ '' account: '' @ errorMessage (ensureError w e))), tr'))"

section \<open>A sample world\<close>

text \<open>
  A concrete world on which the theorems below are instantiated: a small file
  \<^verbatim>\<open>/tmp/a.pdf\<close>, a file \<^verbatim>\<open>/tmp/big.bin\<close> of 11 MiB, no other path; every remote call
  succeeds. The variants change one collaborator each.
\<close>

definition sampleBasename :: "string \<Rightarrow> string" where
  "sampleBasename p = rev (takeWhile (\<lambda>c. c \<noteq> CHR ''/'') (rev p))"

definition sampleAccount :: Account where
  "sampleAccount =
     \<lparr> a_accountID = Some ''acc-1'', a_code = Some ''200'', a_name = Some ''Sales'',
       a_type = Some ''REVENUE'', a_description = None, a_taxType = None,
       a_enablePaymentsToAccount = None, a_bankAccountNumber = None,
       a_bankAccountType = None, a_showInExpenseClaims = None \<rparr>"

definition sampleWorld :: env where
  "sampleWorld =
     \<lparr> tenantId = ''tenant-1'',
       resolve = (\<lambda>p. p),
       basename = sampleBasename,
       detectMimeType =
         (\<lambda>f. if f = ''a.pdf'' then ''application/pdf'' else ''application/octet-stream''),
       toBase64 = (\<lambda>b. if b = ''ABC'' then ''QUJD'' else []),
       fromBase64 = (\<lambda>s. if s = ''QUJD'' then ''ABC'' else []),
       stat =
         (\<lambda>tr p. if p = ''/tmp/a.pdf'' then Inr \<lparr> st_isFile = True, st_size = 3 \<rparr>
                 else if p = ''/tmp/big.bin'' then Inr \<lparr> st_isFile = True, st_size = 11534336 \<rparr>
                 else Inl (Error (Some ''ENOENT'') ''ENOENT: no such file or directory'')),
       readFile =
         (\<lambda>tr p. if p = ''/tmp/a.pdf'' then Inr ''ABC''
                 else Inl (Error (Some ''ENOENT'') ''ENOENT: no such file or directory'')),
       createAttachmentByFileName = (\<lambda>tr c. None),
       getDeepLink = (\<lambda>tr ty ident. Inr (''https://go.xero.com/view/'' @ ident)),
       bankTransactionDeepLink = (\<lambda>accountId ident. Inr (''https://go.xero.com/Bank/'' @ ident)),
       authenticate = (\<lambda>tr. None),
       api_getAccount = (\<lambda>tr tenant ident. Inr (Some [sampleAccount])),
       api_updateAccount = (\<lambda>tr tenant ident account. Inr (Some [sampleAccount])),
       api_createAccount = (\<lambda>tr tenant account. Inr (Some [sampleAccount])),
       formatError = errorMessage,
       ensureError = (\<lambda>e. e) \<rparr>"


text \<open>The deep link cannot be built.\<close>

definition noLinkWorld :: env where
  "noLinkWorld =
     sampleWorld \<lparr> getDeepLink :=
       (\<lambda>tr ty ident. Inl (Error None ''Failed to retrieve organisation short code'')) \<rparr>"

text \<open>
  A file system with a directory, a file that may not be examined and a file whose content
  cannot be read.
\<close>

definition faultyWorld :: env where
  "faultyWorld =
     sampleWorld \<lparr>
       stat :=
         (\<lambda>tr p. if p = ''/tmp'' then Inr \<lparr> st_isFile = False, st_size = 4096 \<rparr>
                 else if p = ''/root/secret.pdf''
                   then Inl (Error (Some ''EACCES'') ''EACCES: permission denied, stat'')
                 else if p = ''/tmp/a.pdf'' then Inr \<lparr> st_isFile = True, st_size = 3 \<rparr>
                 else Inl (Error (Some ''ENOENT'') ''ENOENT: no such file or directory'')),
       readFile := (\<lambda>tr p. Inl (Error (Some ''EIO'') ''EIO: i/o error, read'')) \<rparr>"

text \<open>Entities as the remote service returns them after a successful call.\<close>

definition sampleBankTransaction :: BankTransaction where
  "sampleBankTransaction =
     \<lparr> bankTransactionID = Some ''bt-1'', bt_date = Some ''2024-05-01'',
       bt_contactName = Some ''Acme'', bt_total = Some ''120.5'',
       bt_status = Some ''AUTHORISED'', bt_bankAccountID = Some ''acc-1'' \<rparr>"

definition sampleInvoice :: Invoice where
  "sampleInvoice =
     \<lparr> invoiceID = Some ''inv-1'', inv_contactName = Some ''Acme'',
       inv_type = Some ''ACCREC'', inv_reference = None, inv_total = Some ''120.5'',
       inv_status = Some ''DRAFT'' \<rparr>"

definition sampleCreditNote :: CreditNote where
  "sampleCreditNote =
     \<lparr> creditNoteID = Some ''cn-1'', cn_contactName = Some ''Acme'',
       cn_total = Some ''40'', cn_status = Some ''DRAFT'' \<rparr>"

text \<open>Three by-content attachments, as the tools' callers send them.\<close>

definition inlinePdf :: "string \<Rightarrow> AttachmentInput" where
  "inlinePdf name =
     \<lparr> in_fileName = Some name, in_mimeType = None, in_filePath = None,
       in_base64Content = Some ''QUJD'' \<rparr>"

section \<open>Reading a trace\<close>

text \<open>The upload calls among the events of a trace.\<close>

fun isUpload :: "event \<Rightarrow> bool" where
  "isUpload (Upload c) = True"
| "isUpload e = False"

section \<open>Facts about the string helpers\<close>

lemma startsWith_append: "startsWith (b @ c) b"
  by (induction b) auto

lemma js_includes_prefix: "js_includes (b @ c) b"
  using startsWith_append[of b c] by (cases "b @ c") auto

lemma js_includes_middle: "js_includes (a @ b @ c) b"
  by (induction a) (auto simp: js_includes_prefix)

lemma startsWith_iff: "startsWith s sub \<longleftrightarrow> (\<exists>b. s = sub @ b)"
  by (induction s sub rule: startsWith.induct) auto

lemma js_includes_iff: "js_includes s sub \<longleftrightarrow> (\<exists>a b. s = a @ sub @ b)"
proof (induction s)
  case Nil
  then show ?case by auto
next
  case (Cons x xs)
  show ?case
  proof
    assume "js_includes (x # xs) sub"
    then consider (h) "startsWith (x # xs) sub" | (t) "js_includes xs sub" by auto
    then show "\<exists>a b. x # xs = a @ sub @ b"
    proof cases
      case h
      then obtain b where "x # xs = sub @ b" by (auto simp add: startsWith_iff)
      then have "x # xs = [] @ sub @ b" by simp
      then show ?thesis by blast
    next
      case t
      with Cons.IH obtain a b where "xs = a @ sub @ b" by auto
      then have "x # xs = (x # a) @ sub @ b" by simp
      then show ?thesis by blast
    qed
  next
    assume "\<exists>a b. x # xs = a @ sub @ b"
    then obtain a b where ab: "x # xs = a @ sub @ b" by auto
    show "js_includes (x # xs) sub"
    proof (cases a)
      case Nil
      with ab have "startsWith (x # xs) sub" by (auto simp add: startsWith_iff)
      then show ?thesis by simp
    next
      case (Cons y ys)
      with ab have "xs = ys @ sub @ b" by simp
      with Cons.IH have "js_includes xs sub" by auto
      then show ?thesis by simp
    qed
  qed
qed

section \<open>File Loader: size ceiling and error messages\<close>

text \<open>
  Claim C3. When \<^verbatim>\<open>stat\<close> reports a regular file of more than 10 * 1024 * 1024 bytes,
  \<^verbatim>\<open>fileToBase64\<close> fails with the error \<^verbatim>\<open>File too large\<close>, it returns no content, and
  the only file-system call it has made is that \<^verbatim>\<open>stat\<close>: the content is never read.
\<close>

theorem fileToBase64_too_large:
  assumes "stat w tr (resolve w filePath) = Inr st"
    and "st_isFile st"
    and "st_size st > 10 * 1024 * 1024"
  shows "fileToBase64 w tr filePath =
           (Inl (Error None (''File too large: '' @ showNat (roundMB (st_size st))
                               @ ''MB (max: 10MB)'')),
            tr @ [Stat (resolve w filePath)])"
  using assms by (simp add: fileToBase64_def Let_def MAX_FILE_SIZE_def)

theorem fileToBase64_too_large_witness:
  "stat sampleWorld [] (resolve sampleWorld ''/tmp/big.bin'')
     = Inr \<lparr> st_isFile = True, st_size = 11534336 \<rparr>
   \<and> fileToBase64 sampleWorld [] ''/tmp/big.bin''
     = (Inl (Error None ''File too large: 11MB (max: 10MB)''), [Stat ''/tmp/big.bin''])"
proof -
  have h: "stat sampleWorld [] (resolve sampleWorld ''/tmp/big.bin'')
             = Inr \<lparr> st_isFile = True, st_size = 11534336 \<rparr>"
    by (simp add: sampleWorld_def)
  have n: "showNat (roundMB 11534336) = ''11''"
    by (simp add: roundMB_def showNat.simps digit_def)
  from fileToBase64_too_large [OF h] n h show ?thesis
    by (simp add: sampleWorld_def)
qed

lemma fileToBase64_stat_fails:
  "stat w tr (resolve w p) = Inl u \<Longrightarrow>
   fileToBase64 w tr p = (Inl (fileToBase64_catch p u), tr @ [Stat (resolve w p)])"
  by (simp add: fileToBase64_def Let_def del: fileToBase64_catch.simps)

lemma fileToBase64_read_fails:
  "stat w tr (resolve w p) = Inr st \<Longrightarrow> st_isFile st \<Longrightarrow> st_size st \<le> 10 * 1024 * 1024 \<Longrightarrow>
   readFile w (tr @ [Stat (resolve w p)]) (resolve w p) = Inl u \<Longrightarrow>
   fileToBase64 w tr p =
     (Inl (fileToBase64_catch p u), tr @ [Stat (resolve w p), ReadFile (resolve w p)])"
  by (simp add: fileToBase64_def Let_def MAX_FILE_SIZE_def del: fileToBase64_catch.simps)

lemma fileToBase64_not_a_file:
  "stat w tr (resolve w p) = Inr st \<Longrightarrow> \<not> st_isFile st \<Longrightarrow>
   fileToBase64 w tr p =
     (Inl (Error None (''Path is not a file: '' @ p)), tr @ [Stat (resolve w p)])"
  by (simp add: fileToBase64_def Let_def)

lemma fileToBase64_underlying:
  assumes "stat w tr (resolve w p) = Inl u \<and> tr1 = tr @ [Stat (resolve w p)]
         \<or> (\<exists>st. stat w tr (resolve w p) = Inr st \<and> st_isFile st
                \<and> st_size st \<le> 10 * 1024 * 1024
                \<and> readFile w (tr @ [Stat (resolve w p)]) (resolve w p) = Inl u)
            \<and> tr1 = tr @ [Stat (resolve w p), ReadFile (resolve w p)]"
  shows "fileToBase64 w tr p = (Inl (fileToBase64_catch p u), tr1)"
  using assms
proof (elim disjE conjE exE)
  assume "stat w tr (resolve w p) = Inl u" "tr1 = tr @ [Stat (resolve w p)]"
  then show ?thesis by (simp only: fileToBase64_stat_fails)
next
  fix st
  assume "stat w tr (resolve w p) = Inr st" "st_isFile st" "st_size st \<le> 10 * 1024 * 1024"
    "readFile w (tr @ [Stat (resolve w p)]) (resolve w p) = Inl u"
    "tr1 = tr @ [Stat (resolve w p), ReadFile (resolve w p)]"
  then show ?thesis by (simp only: fileToBase64_read_fails)
qed

lemma catch_other:
  assumes "c \<noteq> Some ''ENOENT''" and "c \<noteq> Some ''EACCES''"
    and "\<forall>a b. m \<noteq> a @ ''too large'' @ b" and "\<forall>a b. m \<noteq> a @ ''not a file'' @ b"
  shows "fileToBase64_catch p (Error c m) =
           Error None (''Unable to read file: '' @ p @ '' - '' @ m)"
proof -
  from assms(3) have a: "\<not> js_includes m ''too large''" by (simp only: js_includes_iff) blast
  from assms(4) have b: "\<not> js_includes m ''not a file''" by (simp only: js_includes_iff) blast
  from assms(1,2) a b show ?thesis by (simp del: js_includes.simps)
qed

lemma catch_names_path:
  assumes "fileToBase64_catch p u = e"
  shows "(\<exists>a b. e = Error None (a @ p @ b))
       \<or> (\<exists>c m. u = Error c m \<and> c \<noteq> Some ''ENOENT'' \<and> c \<noteq> Some ''EACCES''
              \<and> ((\<exists>a b. m = a @ ''too large'' @ b) \<or> (\<exists>a b. m = a @ ''not a file'' @ b)))"
proof (cases u)
  case (NonError s)
  with assms have "e = Error None (''Unable to read file: '' @ p @ ('' - '' @ s))" by simp
  then have "\<exists>a b. e = Error None (a @ p @ b)" by (intro exI)
  then show ?thesis by (rule disjI1)
next
  case (Error c m)
  show ?thesis
  proof (cases "c = Some ''ENOENT''")
    case True
    with Error assms have "e = Error None (''File not found: '' @ p @ [])" by simp
    then have "\<exists>a b. e = Error None (a @ p @ b)" by (intro exI)
    then show ?thesis by (rule disjI1)
  next
    case ne: False
    show ?thesis
    proof (cases "c = Some ''EACCES''")
      case True
      with Error assms have "e = Error None (''Permission denied: '' @ p @ [])" by simp
      then have "\<exists>a b. e = Error None (a @ p @ b)" by (intro exI)
      then show ?thesis by (rule disjI1)
    next
      case na: False
      show ?thesis
      proof (cases "js_includes m ''too large'' \<or> js_includes m ''not a file''")
        case True
        then have "(\<exists>a b. m = a @ ''too large'' @ b) \<or> (\<exists>a b. m = a @ ''not a file'' @ b)"
          by (simp only: js_includes_iff)
        with Error ne na
        have "u = Error c m \<and> c \<noteq> Some ''ENOENT'' \<and> c \<noteq> Some ''EACCES''
              \<and> ((\<exists>a b. m = a @ ''too large'' @ b) \<or> (\<exists>a b. m = a @ ''not a file'' @ b))"
          by (intro conjI)
        then have "\<exists>c m. u = Error c m \<and> c \<noteq> Some ''ENOENT'' \<and> c \<noteq> Some ''EACCES''
              \<and> ((\<exists>a b. m = a @ ''too large'' @ b) \<or> (\<exists>a b. m = a @ ''not a file'' @ b))"
          by (intro exI)
        then show ?thesis by (rule disjI2)
      next
        case False
        with Error assms ne na
        have "e = Error None (''Unable to read file: '' @ p @ ('' - '' @ m))"
          by (simp del: js_includes.simps)
        then have "\<exists>a b. e = Error None (a @ p @ b)" by (intro exI)
        then show ?thesis by (rule disjI1)
      qed
    qed
  qed
qed

text \<open>
  Claim C8, as the code has it. A call fails with \<^verbatim>\<open>Path is not a file: <path>\<close> when the
  path is not a regular file. When \<^verbatim>\<open>stat\<close> or \<^verbatim>\<open>readFile\<close> throws, the call fails with
  \<^verbatim>\<open>File not found: <path>\<close> if the error has code \<^verbatim>\<open>ENOENT\<close>, with
  \<^verbatim>\<open>Permission denied: <path>\<close> if it has code \<^verbatim>\<open>EACCES\<close>, and with
  \<^verbatim>\<open>Unable to read file: <path> - <cause>\<close> if it is an error with another code, or none,
  whose message contains neither \<^verbatim>\<open>too large\<close> nor \<^verbatim>\<open>not a file\<close>, or a value that is not an
  error; the cause is the message of what was thrown. The message of every failure holds
  the path as the caller gave it, except for the size error, which gives the size only.
  An error of \<^verbatim>\<open>stat\<close> or \<^verbatim>\<open>readFile\<close> with another code whose message contains
  \<^verbatim>\<open>too large\<close> or \<^verbatim>\<open>not a file\<close> is set aside: nothing is stated about it.
\<close>

theorem fileToBase64_failure_message:
  "(stat w tr (resolve w p) = Inr st \<and> \<not> st_isFile st \<longrightarrow>
      fileToBase64 w tr p =
        (Inl (Error None (''Path is not a file: '' @ p)), tr @ [Stat (resolve w p)]))
   \<and> (stat w tr (resolve w p) = Inl u \<and> tr1 = tr @ [Stat (resolve w p)]
        \<or> (\<exists>st. stat w tr (resolve w p) = Inr st \<and> st_isFile st
               \<and> st_size st \<le> 10 * 1024 * 1024
               \<and> readFile w (tr @ [Stat (resolve w p)]) (resolve w p) = Inl u)
           \<and> tr1 = tr @ [Stat (resolve w p), ReadFile (resolve w p)] \<longrightarrow>
       (u = Error (Some ''ENOENT'') m \<longrightarrow>
          fileToBase64 w tr p = (Inl (Error None (''File not found: '' @ p)), tr1))
     \<and> (u = Error (Some ''EACCES'') m \<longrightarrow>
          fileToBase64 w tr p = (Inl (Error None (''Permission denied: '' @ p)), tr1))
     \<and> (u = Error c m \<and> c \<noteq> Some ''ENOENT'' \<and> c \<noteq> Some ''EACCES''
          \<and> (\<forall>a b. m \<noteq> a @ ''too large'' @ b) \<and> (\<forall>a b. m \<noteq> a @ ''not a file'' @ b) \<longrightarrow>
          fileToBase64 w tr p =
            (Inl (Error None (''Unable to read file: '' @ p @ '' - '' @ m)), tr1))
     \<and> (u = NonError s \<longrightarrow>
          fileToBase64 w tr p =
            (Inl (Error None (''Unable to read file: '' @ p @ '' - '' @ s)), tr1)))
   \<and> (fileToBase64 w tr p = (Inl e, tr') \<longrightarrow>
        (\<exists>a b. e = Error None (a @ p @ b))
      \<or> (\<exists>st. stat w tr (resolve w p) = Inr st \<and> st_isFile st
             \<and> st_size st > 10 * 1024 * 1024
             \<and> e = Error None (''File too large: '' @ showNat (roundMB (st_size st))
                                  @ ''MB (max: 10MB)''))
      \<or> (\<exists>c' m'. c' \<noteq> Some ''ENOENT'' \<and> c' \<noteq> Some ''EACCES''
             \<and> ((\<exists>a b. m' = a @ ''too large'' @ b) \<or> (\<exists>a b. m' = a @ ''not a file'' @ b))
             \<and> (stat w tr (resolve w p) = Inl (Error c' m')
                 \<or> readFile w (tr @ [Stat (resolve w p)]) (resolve w p) = Inl (Error c' m'))))"
  (is "(?nfH \<longrightarrow> ?nfC) \<and> (?srcH \<longrightarrow> ?enoent \<and> ?eacces \<and> ?other \<and> ?nonerr)
        \<and> (?failH \<longrightarrow> ?path \<or> ?large \<or> ?raw)")
proof (intro conjI)
  show "?nfH \<longrightarrow> ?nfC"
  proof (rule impI, elim conjE)
    assume "stat w tr (resolve w p) = Inr st" "\<not> st_isFile st"
    then show ?nfC by (rule fileToBase64_not_a_file)
  qed
next
  show "?srcH \<longrightarrow> ?enoent \<and> ?eacces \<and> ?other \<and> ?nonerr"
  proof (rule impI)
    assume src: ?srcH
    note r = fileToBase64_underlying [OF src]
    have a: ?enoent
    proof (rule impI)
      assume "u = Error (Some ''ENOENT'') m"
      with r show "fileToBase64 w tr p = (Inl (Error None (''File not found: '' @ p)), tr1)"
        by simp
    qed
    have b: ?eacces
    proof (rule impI)
      assume "u = Error (Some ''EACCES'') m"
      with r show "fileToBase64 w tr p = (Inl (Error None (''Permission denied: '' @ p)), tr1)"
        by simp
    qed
    have c: ?other
    proof (rule impI, elim conjE)
      assume u: "u = Error c m" and h: "c \<noteq> Some ''ENOENT''" "c \<noteq> Some ''EACCES''"
        "\<forall>a b. m \<noteq> a @ ''too large'' @ b" "\<forall>a b. m \<noteq> a @ ''not a file'' @ b"
      from r show "fileToBase64 w tr p =
            (Inl (Error None (''Unable to read file: '' @ p @ '' - '' @ m)), tr1)"
        unfolding u by (simp only: catch_other [OF h])
    qed
    have d: ?nonerr
    proof (rule impI)
      assume "u = NonError s"
      with r show "fileToBase64 w tr p =
            (Inl (Error None (''Unable to read file: '' @ p @ '' - '' @ s)), tr1)"
        by simp
    qed
    from a b c d show "?enoent \<and> ?eacces \<and> ?other \<and> ?nonerr" by (intro conjI)
  qed
next
  show "?failH \<longrightarrow> ?path \<or> ?large \<or> ?raw"
  proof (rule impI)
    assume fails: ?failH
    have from_catch: "?path \<or> ?large \<or> ?raw"
      if c: "fileToBase64_catch p x = e"
        and x: "stat w tr (resolve w p) = Inl x
                \<or> readFile w (tr @ [Stat (resolve w p)]) (resolve w p) = Inl x" for x
    proof (rule disjE [OF catch_names_path [OF c]])
      assume "\<exists>a b. e = Error None (a @ p @ b)"
      then show ?thesis by (rule disjI1)
    next
      assume "\<exists>c m. x = Error c m \<and> c \<noteq> Some ''ENOENT'' \<and> c \<noteq> Some ''EACCES''
              \<and> ((\<exists>a b. m = a @ ''too large'' @ b) \<or> (\<exists>a b. m = a @ ''not a file'' @ b))"
      then obtain c0 m0 where k: "x = Error c0 m0" "c0 \<noteq> Some ''ENOENT''" "c0 \<noteq> Some ''EACCES''"
        "(\<exists>a b. m0 = a @ ''too large'' @ b) \<or> (\<exists>a b. m0 = a @ ''not a file'' @ b)"
        by (elim exE conjE)
      from x have x': "stat w tr (resolve w p) = Inl (Error c0 m0)
                \<or> readFile w (tr @ [Stat (resolve w p)]) (resolve w p) = Inl (Error c0 m0)"
        unfolding k(1) .
      have "c0 \<noteq> Some ''ENOENT'' \<and> c0 \<noteq> Some ''EACCES''
             \<and> ((\<exists>a b. m0 = a @ ''too large'' @ b) \<or> (\<exists>a b. m0 = a @ ''not a file'' @ b))
             \<and> (stat w tr (resolve w p) = Inl (Error c0 m0)
                 \<or> readFile w (tr @ [Stat (resolve w p)]) (resolve w p) = Inl (Error c0 m0))"
        using k(2,3,4) x' by (intro conjI)
      then have ?raw by (intro exI)
      then show ?thesis by (intro disjI2)
    qed
    show "?path \<or> ?large \<or> ?raw"
    proof (cases "stat w tr (resolve w p)")
      case (Inl x)
      from fails fileToBase64_stat_fails [OF Inl] have c: "fileToBase64_catch p x = e"
        by (simp del: fileToBase64_catch.simps)
      from Inl have "stat w tr (resolve w p) = Inl x
                \<or> readFile w (tr @ [Stat (resolve w p)]) (resolve w p) = Inl x"
        by (rule disjI1)
      from from_catch [OF c this] show ?thesis .
    next
      case st: (Inr st0)
      show ?thesis
      proof (cases "st_isFile st0")
        case False
        from fails fileToBase64_not_a_file [OF st False]
        have "e = Error None (''Path is not a file: '' @ p @ [])" by simp
        then have ?path by (intro exI)
        then show ?thesis by (rule disjI1)
      next
        case isfile: True
        show ?thesis
        proof (cases "st_size st0 > 10 * 1024 * 1024")
          case True
          from fails st isfile True
          have "e = Error None (''File too large: '' @ showNat (roundMB (st_size st0))
                                  @ ''MB (max: 10MB)'')"
            by (simp add: fileToBase64_def Let_def MAX_FILE_SIZE_def)
          with st isfile True
          have "stat w tr (resolve w p) = Inr st0 \<and> st_isFile st0
             \<and> st_size st0 > 10 * 1024 * 1024
             \<and> e = Error None (''File too large: '' @ showNat (roundMB (st_size st0))
                                  @ ''MB (max: 10MB)'')"
            by (intro conjI)
          then have ?large by (intro exI)
          then show ?thesis by (intro disjI1 disjI2)
        next
          case False
          then have small: "st_size st0 \<le> 10 * 1024 * 1024" by simp
          show ?thesis
          proof (cases "readFile w (tr @ [Stat (resolve w p)]) (resolve w p)")
            case (Inr buffer)
            from fails st isfile small Inr have False
              by (simp add: fileToBase64_def Let_def MAX_FILE_SIZE_def)
            then show ?thesis ..
          next
            case (Inl x)
            from fails fileToBase64_read_fails [OF st isfile small Inl]
            have c: "fileToBase64_catch p x = e"
              by (simp del: fileToBase64_catch.simps)
            from Inl have "stat w tr (resolve w p) = Inl x
                \<or> readFile w (tr @ [Stat (resolve w p)]) (resolve w p) = Inl x"
              by (rule disjI2)
            from from_catch [OF c this] show ?thesis .
          qed
        qed
      qed
    qed
  qed
qed

text \<open>
  The size error of the 11 MiB file \<^verbatim>\<open>/tmp/big.bin\<close> does not contain the path.
\<close>

theorem fileToBase64_too_large_omits_path:
  "fileToBase64 sampleWorld [] ''/tmp/big.bin''
     = (Inl (Error None ''File too large: 11MB (max: 10MB)''), [Stat ''/tmp/big.bin''])
   \<and> \<not> js_includes ''File too large: 11MB (max: 10MB)'' ''/tmp/big.bin''"
proof -
  have n: "showNat (roundMB 11534336) = ''11''"
    by (simp add: roundMB_def showNat.simps digit_def)
  have a: "fileToBase64 sampleWorld [] ''/tmp/big.bin''
     = (Inl (Error None ''File too large: 11MB (max: 10MB)''), [Stat ''/tmp/big.bin''])"
    using n by (simp add: fileToBase64_def Let_def MAX_FILE_SIZE_def sampleWorld_def)
  have b: "\<not> js_includes ''File too large: 11MB (max: 10MB)'' ''/tmp/big.bin''"
    by simp
  from a b show ?thesis by (rule conjI)
qed

theorem fileToBase64_failure_message_witness:
  "fileToBase64 faultyWorld [] ''/tmp''
     = (Inl (Error None ''Path is not a file: /tmp''), [Stat ''/tmp''])
   \<and> fileToBase64 sampleWorld [] ''/tmp/missing.txt''
     = (Inl (Error None ''File not found: /tmp/missing.txt''), [Stat ''/tmp/missing.txt''])
   \<and> fileToBase64 faultyWorld [] ''/root/secret.pdf''
     = (Inl (Error None ''Permission denied: /root/secret.pdf''), [Stat ''/root/secret.pdf''])
   \<and> fileToBase64 faultyWorld [] ''/tmp/a.pdf''
     = (Inl (Error None ''Unable to read file: /tmp/a.pdf - EIO: i/o error, read''),
        [Stat ''/tmp/a.pdf'', ReadFile ''/tmp/a.pdf''])
   \<and> (\<exists>a b. Error None ''File not found: /tmp/missing.txt''
               = Error None (a @ ''/tmp/missing.txt'' @ b))"
  (is "?dir \<and> ?missing \<and> ?locked \<and> ?io \<and> ?names")
proof -
  have dir: ?dir
    using fileToBase64_failure_message [where w = faultyWorld and tr = "[]" and p = "''/tmp''"
        and st = "\<lparr> st_isFile = False, st_size = 4096 \<rparr>", THEN conjunct1]
    by (simp add: faultyWorld_def sampleWorld_def)
  have missing: ?missing
    using fileToBase64_failure_message [where w = sampleWorld and tr = "[]"
        and p = "''/tmp/missing.txt''"
        and u = "Error (Some ''ENOENT'') ''ENOENT: no such file or directory''"
        and m = "''ENOENT: no such file or directory''"
        and ?tr1.0 = "[Stat ''/tmp/missing.txt'']",
        THEN conjunct2, THEN conjunct1]
    by (simp add: sampleWorld_def)
  have locked: ?locked
    using fileToBase64_failure_message [where w = faultyWorld and tr = "[]"
        and p = "''/root/secret.pdf''"
        and u = "Error (Some ''EACCES'') ''EACCES: permission denied, stat''"
        and m = "''EACCES: permission denied, stat''"
        and ?tr1.0 = "[Stat ''/root/secret.pdf'']",
        THEN conjunct2, THEN conjunct1]
    by (simp add: faultyWorld_def sampleWorld_def)
  have nl: "\<forall>a b. ''EIO: i/o error, read'' \<noteq> a @ ''too large'' @ b"
    using js_includes_iff [of "''EIO: i/o error, read''" "''too large''"] by simp
  have nf: "\<forall>a b. ''EIO: i/o error, read'' \<noteq> a @ ''not a file'' @ b"
    using js_includes_iff [of "''EIO: i/o error, read''" "''not a file''"] by simp
  have io: ?io
    using fileToBase64_failure_message [where w = faultyWorld and tr = "[]"
        and p = "''/tmp/a.pdf''"
        and u = "Error (Some ''EIO'') ''EIO: i/o error, read''"
        and c = "Some ''EIO''"
        and m = "''EIO: i/o error, read''"
        and ?tr1.0 = "[Stat ''/tmp/a.pdf'', ReadFile ''/tmp/a.pdf'']",
        THEN conjunct2, THEN conjunct1] nl nf
    by (simp add: faultyWorld_def sampleWorld_def)
  have names: ?names
    using fileToBase64_failure_message [where w = sampleWorld and tr = "[]"
        and p = "''/tmp/missing.txt''"
        and e = "Error None ''File not found: /tmp/missing.txt''"
        and tr' = "[Stat ''/tmp/missing.txt'']",
        THEN conjunct2, THEN conjunct2] missing
    by (simp add: sampleWorld_def)
  from dir missing locked io names show ?thesis by (intro conjI)
qed

section \<open>Entity Handlers: the envelope\<close>

text \<open>
  Claim C5. The envelope returned by \<^verbatim>\<open>getXeroAccount\<close> and by \<^verbatim>\<open>createXeroAccount\<close>, whatever
  the client does, has \<^verbatim>\<open>isError\<close> true exactly when \<^verbatim>\<open>result\<close> is null, and exactly when
  \<^verbatim>\<open>error\<close> is not null.
\<close>

theorem handler_envelope_invariant:
  "(isError (fst (getXeroAccount w tr accountId))
      \<longleftrightarrow> result (fst (getXeroAccount w tr accountId)) = None)
   \<and> (isError (fst (getXeroAccount w tr accountId))
      \<longleftrightarrow> error (fst (getXeroAccount w tr accountId)) \<noteq> None)
   \<and> (isError (fst (createXeroAccount w tr args))
      \<longleftrightarrow> result (fst (createXeroAccount w tr args)) = None)
   \<and> (isError (fst (createXeroAccount w tr args))
      \<longleftrightarrow> error (fst (createXeroAccount w tr args)) \<noteq> None)"
  by (simp add: getXeroAccount_def createXeroAccount_def success_def failure_def
           split: prod.splits sum.splits option.splits)


section \<open>Attachment Normalizer\<close>

lemma processLoop_append:
  "processLoop w tr acc pre = (Inr acc', tr1) \<Longrightarrow>
   processLoop w tr acc (pre @ rest) = processLoop w tr1 acc' rest"
proof (induction pre arbitrary: tr acc)
  case Nil
  then show ?case by simp
next
  case (Cons a pre)
  obtain r tr2 where p: "processAttachment w tr a = (r, tr2)" by (cases "processAttachment w tr a")
  show ?case
  proof (cases r)
    case (Inl e)
    with p Cons.prems show ?thesis by simp
  next
    case (Inr x)
    with p Cons.prems have "processLoop w tr2 (acc @ [x]) pre = (Inr acc', tr1)" by simp
    from Cons.IH [OF this] p Inr show ?thesis by simp
  qed
qed

lemma processAttachments_after:
  assumes "processLoop w tr [] pre = (Inr acc, tr1)"
  shows "processAttachments w tr (Some (pre @ a # post)) = processLoop w tr1 acc (a # post)"
  using processLoop_append [OF assms, of "a # post"] by (simp add: processAttachments_def)

lemma missing_source:
  "\<not> truthy (in_filePath a) \<Longrightarrow> \<not> truthy (in_base64Content a) \<Longrightarrow>
   processAttachment w tr a =
     (Inl (Error None ''Either filePath or base64Content must be provided''), tr)"
  by (simp add: processAttachment_def)

lemma missing_fileName:
  "\<not> truthy (in_filePath a) \<Longrightarrow> truthy (in_base64Content a) \<Longrightarrow> \<not> truthy (in_fileName a) \<Longrightarrow>
   processAttachment w tr a =
     (Inl (Error None ''fileName is required when using base64Content''), tr)"
  by (simp add: processAttachment_def)

lemma fileToBase64_sample:
  "fileToBase64 sampleWorld [] ''/tmp/a.pdf''
     = (Inr \<lparr> fd_base64Content = ''QUJD'', fd_mimeType = ''application/pdf'',
               fd_fileName = ''a.pdf'' \<rparr>,
        [Stat ''/tmp/a.pdf'', ReadFile ''/tmp/a.pdf''])"
  by (simp add: fileToBase64_def Let_def MAX_FILE_SIZE_def sampleWorld_def sampleBasename_def)

lemma fileToBase64_loaded:
  assumes "stat w tr (resolve w p) = Inr st" and "st_isFile st"
    and "st_size st \<le> 10 * 1024 * 1024"
    and "readFile w (tr @ [Stat (resolve w p)]) (resolve w p) = Inr buffer"
  shows "fileToBase64 w tr p =
           (Inr \<lparr> fd_base64Content = toBase64 w buffer,
                   fd_mimeType = detectMimeType w (basename w (resolve w p)),
                   fd_fileName = basename w (resolve w p) \<rparr>,
            tr @ [Stat (resolve w p), ReadFile (resolve w p)])"
  using assms by (simp add: fileToBase64_def Let_def MAX_FILE_SIZE_def)


text \<open>
  What the boundary schema lets through never meets the two late checks: an accepted
  input without a file path is taken verbatim, and content without a file name is
  rejected at the boundary, with or without a file path.
\<close>

lemma accepted_by_content_is_processed:
  assumes "attachmentSchema_issues a = []" and "\<not> truthy (in_filePath a)"
  shows "processAttachment w tr a =
           (Inr \<lparr> pa_fileName = the (in_fileName a),
                   pa_mimeType = orElse (in_mimeType a) (detectMimeType w (the (in_fileName a))),
                   pa_base64Content = the (in_base64Content a) \<rparr>, tr)"
  using assms
  by (simp add: attachmentSchema_issues_def processAttachment_def Let_def split: if_splits)

lemma schema_rejects_content_without_fileName:
  "truthy (in_base64Content a) \<Longrightarrow> \<not> truthy (in_fileName a) \<Longrightarrow>
   attachmentSchema_issues a = [''fileName is required when using base64Content'']"
  by (simp add: attachmentSchema_issues_def)

lemma deliverable_by_content:
  assumes "attachmentSchema_issues a = [] \<or> in_filePath a = None \<or> in_filePath a = Some []"
    and "in_base64Content a = Some b" and "b \<noteq> []"
    and "in_fileName a = None \<or> in_fileName a = Some []"
  shows "processAttachment w tr a =
           (Inl (Error None ''fileName is required when using base64Content''), tr)"
proof -
  from assms(2,3) have c: "truthy (in_base64Content a)" by simp
  from assms(4) have n: "\<not> truthy (in_fileName a)" by (rule disjE) simp_all
  from c n have "attachmentSchema_issues a \<noteq> []"
    by (simp add: attachmentSchema_issues_def)
  with assms(1) have "in_filePath a = None \<or> in_filePath a = Some []" by simp
  then have "\<not> truthy (in_filePath a)" by (rule disjE) simp_all
  from missing_fileName [OF this c n] show ?thesis .
qed

text \<open>
  Claim C6. Once the attachments before it have been processed, an input whose \<^verbatim>\<open>filePath\<close>
  and \<^verbatim>\<open>base64Content\<close> are both absent (or empty) makes \<^verbatim>\<open>processAttachments\<close> fail with
  the missing-source error; an input whose \<^verbatim>\<open>base64Content\<close> is set, that is a string that
  is not empty, and whose \<^verbatim>\<open>fileName\<close> is absent (or empty) makes it fail with the
  missing-filename error. The second part is for the inputs that reach the function: those
  the boundary schema accepts and those that come without a \<^verbatim>\<open>filePath\<close>, as the tools
  with a by-content schema of their own pass them. Both messages carry the prefix
  \<^verbatim>\<open>Failed to process attachment: \<close>.
\<close>

theorem processAttachments_missing_fields:
  assumes "processLoop w tr [] pre = (Inr acc, tr1)"
  shows "((in_filePath a = None \<or> in_filePath a = Some [])
            \<and> (in_base64Content a = None \<or> in_base64Content a = Some []) \<longrightarrow>
            processAttachments w tr (Some (pre @ a # post)) =
              (Inl (Error None
                 ''Failed to process attachment: Either filePath or base64Content must be provided''),
               tr1))
       \<and> ((attachmentSchema_issues a = [] \<or> in_filePath a = None \<or> in_filePath a = Some [])
            \<and> in_base64Content a = Some b \<and> b \<noteq> []
            \<and> (in_fileName a = None \<or> in_fileName a = Some []) \<longrightarrow>
            processAttachments w tr (Some (pre @ a # post)) =
              (Inl (Error None
                 ''Failed to process attachment: fileName is required when using base64Content''),
               tr1))"
  (is "(?h1 \<longrightarrow> ?c1) \<and> (?h2 \<longrightarrow> ?c2)")
proof (rule conjI)
  show "?h1 \<longrightarrow> ?c1"
  proof (rule impI, elim conjE)
    assume p: "in_filePath a = None \<or> in_filePath a = Some []"
      and c: "in_base64Content a = None \<or> in_base64Content a = Some []"
    from p have np: "\<not> truthy (in_filePath a)" by (rule disjE) simp_all
    from c have nc: "\<not> truthy (in_base64Content a)" by (rule disjE) simp_all
    show ?c1
      by (simp add: processAttachments_after [OF assms] missing_source [OF np nc])
  qed
next
  show "?h2 \<longrightarrow> ?c2"
  proof (rule impI, elim conjE)
    assume d: "attachmentSchema_issues a = [] \<or> in_filePath a = None \<or> in_filePath a = Some []"
      and c: "in_base64Content a = Some b" "b \<noteq> []"
      and n: "in_fileName a = None \<or> in_fileName a = Some []"
    show ?c2
      by (simp add: processAttachments_after [OF assms] deliverable_by_content [OF d c n])
  qed
qed

theorem processAttachments_missing_fields_witness:
  "processLoop sampleWorld [] [] [] = (Inr [], [])
   \<and> processAttachments sampleWorld []
        (Some ([] @ \<lparr> in_fileName = None, in_mimeType = None, in_filePath = None,
                       in_base64Content = None \<rparr> # []))
     = (Inl (Error None
          ''Failed to process attachment: Either filePath or base64Content must be provided''), [])
   \<and> processAttachments sampleWorld []
        (Some ([] @ \<lparr> in_fileName = None, in_mimeType = None, in_filePath = None,
                       in_base64Content = Some ''QUJD'' \<rparr> # []))
     = (Inl (Error None
          ''Failed to process attachment: fileName is required when using base64Content''), [])"
proof -
  have h: "processLoop sampleWorld [] [] [] = (Inr [], [])" by simp
  from processAttachments_missing_fields [OF h,
      of "\<lparr> in_fileName = None, in_mimeType = None, in_filePath = None,
             in_base64Content = None \<rparr>" "[]"]
  have a: "processAttachments sampleWorld []
        (Some ([] @ \<lparr> in_fileName = None, in_mimeType = None, in_filePath = None,
                       in_base64Content = None \<rparr> # []))
     = (Inl (Error None
          ''Failed to process attachment: Either filePath or base64Content must be provided''), [])"
    by simp
  from processAttachments_missing_fields [OF h,
      of "\<lparr> in_fileName = None, in_mimeType = None, in_filePath = None,
             in_base64Content = Some ''QUJD'' \<rparr>" "[]" "''QUJD''"]
  have b: "processAttachments sampleWorld []
        (Some ([] @ \<lparr> in_fileName = None, in_mimeType = None, in_filePath = None,
                       in_base64Content = Some ''QUJD'' \<rparr> # []))
     = (Inl (Error None
          ''Failed to process attachment: fileName is required when using base64Content''), [])"
    by simp
  from h a b show ?thesis by (intro conjI)
qed


text \<open>
  An input with a \<^verbatim>\<open>filePath\<close> that loads, \<^verbatim>\<open>base64Content\<close> and no \<^verbatim>\<open>fileName\<close> is refused
  by the boundary schema; given to \<^verbatim>\<open>processAttachments\<close> all the same, it is loaded from
  the file.
\<close>

lemma by_path_branch_comes_first:
  "attachmentSchema_issues
     \<lparr> in_fileName = None, in_mimeType = None, in_filePath = Some ''/tmp/a.pdf'',
       in_base64Content = Some ''QUJD'' \<rparr>
   = [''fileName is required when using base64Content'']
   \<and> processAttachments sampleWorld []
     (Some [\<lparr> in_fileName = None, in_mimeType = None, in_filePath = Some ''/tmp/a.pdf'',
              in_base64Content = Some ''QUJD'' \<rparr>])
   = (Inr [\<lparr> pa_fileName = ''a.pdf'', pa_mimeType = ''application/pdf'',
              pa_base64Content = ''QUJD'' \<rparr>],
      [Stat ''/tmp/a.pdf'', ReadFile ''/tmp/a.pdf''])"
  by (simp add: attachmentSchema_issues_def processAttachments_def processAttachment_def
        fileToBase64_sample)


text \<open>
  Claim C7, as the code has it. For a by-path input whose file loads, the produced
  \<^verbatim>\<open>fileName\<close> is the input's \<^verbatim>\<open>fileName\<close> when that is given and not empty, and otherwise
  the basename of the resolved path; the produced \<^verbatim>\<open>mimeType\<close> is the input's \<^verbatim>\<open>mimeType\<close>
  when that is given and not empty, and otherwise the detector's answer for the basename
  of the resolved path (not for the \<^verbatim>\<open>fileName\<close> override).
\<close>

theorem by_path_overrides:
  assumes "processLoop w tr [] pre = (Inr acc, tr1)"
    and "in_filePath a = Some p" and "p \<noteq> []"
    and "stat w tr1 (resolve w p) = Inr st" and "st_isFile st"
    and "st_size st \<le> 10 * 1024 * 1024"
    and "readFile w (tr1 @ [Stat (resolve w p)]) (resolve w p) = Inr buffer"
  shows "processAttachments w tr (Some (pre @ [a])) =
           (Inr (acc @
              [\<lparr> pa_fileName =
                   (if in_fileName a = None \<or> in_fileName a = Some []
                    then basename w (resolve w p) else the (in_fileName a)),
                 pa_mimeType =
                   (if in_mimeType a = None \<or> in_mimeType a = Some []
                    then detectMimeType w (basename w (resolve w p)) else the (in_mimeType a)),
                 pa_base64Content = toBase64 w buffer \<rparr>]),
            tr1 @ [Stat (resolve w p), ReadFile (resolve w p)])"
proof -
  have f: "orElse x d = (if x = None \<or> x = Some [] then d else the x)" for x d
    by (cases x) simp_all
  from assms(2,3) have t: "truthy (in_filePath a)" "the (in_filePath a) = p" by simp_all
  show ?thesis
    by (simp add: processAttachments_after [OF assms(1)] processAttachment_def t
          fileToBase64_loaded [OF assms(4-7)] f)
qed

theorem by_path_overrides_witness:
  "processLoop sampleWorld [] [] [] = (Inr [], [])
   \<and> processAttachments sampleWorld []
        (Some ([] @ [\<lparr> in_fileName = Some ''invoice.pdf'', in_mimeType = None,
                        in_filePath = Some ''/tmp/a.pdf'', in_base64Content = None \<rparr>]))
     = (Inr [\<lparr> pa_fileName = ''invoice.pdf'', pa_mimeType = ''application/pdf'',
                pa_base64Content = ''QUJD'' \<rparr>],
        [Stat ''/tmp/a.pdf'', ReadFile ''/tmp/a.pdf''])"
proof -
  have h: "processLoop sampleWorld [] [] [] = (Inr [], [])" by simp
  have p: "in_filePath \<lparr> in_fileName = Some ''invoice.pdf'', in_mimeType = None,
                        in_filePath = Some ''/tmp/a.pdf'', in_base64Content = None \<rparr>
             = Some ''/tmp/a.pdf''" by simp
  have ne: "''/tmp/a.pdf'' \<noteq> []" by simp
  have st: "stat sampleWorld [] (resolve sampleWorld ''/tmp/a.pdf'')
              = Inr \<lparr> st_isFile = True, st_size = 3 \<rparr>"
    by (simp add: sampleWorld_def)
  have f: "st_isFile \<lparr> st_isFile = True, st_size = 3 \<rparr>" by simp
  have sz: "st_size \<lparr> st_isFile = True, st_size = 3 \<rparr> \<le> 10 * 1024 * 1024" by simp
  have rd: "readFile sampleWorld ([] @ [Stat (resolve sampleWorld ''/tmp/a.pdf'')])
              (resolve sampleWorld ''/tmp/a.pdf'') = Inr ''ABC''"
    by (simp add: sampleWorld_def)
  from by_path_overrides [OF h p ne st f sz rd]
  have "processAttachments sampleWorld []
        (Some ([] @ [\<lparr> in_fileName = Some ''invoice.pdf'', in_mimeType = None,
                        in_filePath = Some ''/tmp/a.pdf'', in_base64Content = None \<rparr>]))
     = (Inr [\<lparr> pa_fileName = ''invoice.pdf'', pa_mimeType = ''application/pdf'',
                pa_base64Content = ''QUJD'' \<rparr>],
        [Stat ''/tmp/a.pdf'', ReadFile ''/tmp/a.pdf''])"
    by (simp add: sampleWorld_def sampleBasename_def)
  with h show ?thesis by (rule conjI)
qed


text \<open>An explicit \<^verbatim>\<open>mimeType\<close> override that is the empty string is not used.\<close>

theorem empty_mimeType_override_ignored:
  "processAttachments sampleWorld []
     (Some [\<lparr> in_fileName = None, in_mimeType = Some [], in_filePath = Some ''/tmp/a.pdf'',
              in_base64Content = None \<rparr>])
   = (Inr [\<lparr> pa_fileName = ''a.pdf'', pa_mimeType = ''application/pdf'',
              pa_base64Content = ''QUJD'' \<rparr>],
      [Stat ''/tmp/a.pdf'', ReadFile ''/tmp/a.pdf''])"
  by (simp add: processAttachments_def processAttachment_def fileToBase64_sample)


text \<open>
  Claim C10. The fields are tested for truthiness, so that an empty string counts as
  absent. An input whose \<^verbatim>\<open>filePath\<close> is the empty string and whose \<^verbatim>\<open>base64Content\<close> is
  not empty goes through the by-content branch: no file is touched, the input is taken
  verbatim when it has a \<^verbatim>\<open>fileName\<close>, and fails with the missing-filename error when it
  has none. An input whose \<^verbatim>\<open>filePath\<close> and \<^verbatim>\<open>base64Content\<close> are both empty strings fails
  with the missing-source error. An input whose \<^verbatim>\<open>base64Content\<close> is not empty and whose
  \<^verbatim>\<open>fileName\<close> is the empty string fails with the missing-filename error; this part is
  for the inputs that reach the function: those the boundary schema accepts and those
  whose \<^verbatim>\<open>filePath\<close> is absent or empty.
\<close>

theorem empty_strings_are_absent:
  assumes "processLoop w tr [] pre = (Inr acc, tr1)"
  shows "(in_filePath a = Some [] \<and> in_base64Content a = Some b \<and> b \<noteq> [] \<longrightarrow>
          processAttachments w tr (Some (pre @ [a])) =
            (if in_fileName a = None \<or> in_fileName a = Some [] then
               (Inl (Error None
                  ''Failed to process attachment: fileName is required when using base64Content''),
                tr1)
             else
               (Inr (acc @
                  [\<lparr> pa_fileName = the (in_fileName a),
                     pa_mimeType =
                       (if in_mimeType a = None \<or> in_mimeType a = Some []
                        then detectMimeType w (the (in_fileName a)) else the (in_mimeType a)),
                     pa_base64Content = b \<rparr>]), tr1)))
       \<and> (in_filePath a = Some [] \<and> in_base64Content a = Some [] \<longrightarrow>
          processAttachments w tr (Some (pre @ a # post)) =
            (Inl (Error None
               ''Failed to process attachment: Either filePath or base64Content must be provided''),
             tr1))
       \<and> ((attachmentSchema_issues a = [] \<or> in_filePath a = None \<or> in_filePath a = Some [])
            \<and> in_base64Content a = Some b \<and> b \<noteq> [] \<and> in_fileName a = Some [] \<longrightarrow>
          processAttachments w tr (Some (pre @ a # post)) =
            (Inl (Error None
               ''Failed to process attachment: fileName is required when using base64Content''),
             tr1))"
  (is "(?h1 \<longrightarrow> ?c1) \<and> (?h2 \<longrightarrow> ?c2) \<and> (?h3 \<longrightarrow> ?c3)")
proof -
  have f: "orElse x d = (if x = None \<or> x = Some [] then d else the x)" for x d
    by (cases x) simp_all
  have t: "truthy x \<longleftrightarrow> \<not> (x = None \<or> x = Some [])" for x
    by (cases x) simp_all
  have one: "?h1 \<longrightarrow> ?c1"
  proof (rule impI, elim conjE)
    assume p: "in_filePath a = Some []" and c: "in_base64Content a = Some b" "b \<noteq> []"
    show ?c1
    proof (cases "in_fileName a = None \<or> in_fileName a = Some []")
      case True
      have d: "attachmentSchema_issues a = [] \<or> in_filePath a = None \<or> in_filePath a = Some []"
        using p by simp
      from True show ?thesis
        using processAttachments_after [OF assms, of a "[]"]
        by (simp add: deliverable_by_content [OF d c True])
    next
      case False
      then have n: "truthy (in_fileName a)" by (simp add: t)
      have "processAttachment w tr1 a =
              (Inr \<lparr> pa_fileName = the (in_fileName a),
                      pa_mimeType =
                        (if in_mimeType a = None \<or> in_mimeType a = Some []
                         then detectMimeType w (the (in_fileName a)) else the (in_mimeType a)),
                      pa_base64Content = b \<rparr>, tr1)"
        using n p c by (simp add: processAttachment_def Let_def f)
      then have "processAttachments w tr (Some (pre @ [a])) =
              (Inr (acc @
                  [\<lparr> pa_fileName = the (in_fileName a),
                     pa_mimeType =
                       (if in_mimeType a = None \<or> in_mimeType a = Some []
                        then detectMimeType w (the (in_fileName a)) else the (in_mimeType a)),
                     pa_base64Content = b \<rparr>]), tr1)"
        by (simp add: processAttachments_after [OF assms])
      with False show ?thesis by (simp only: if_False)
    qed
  qed
  have two: "?h2 \<longrightarrow> ?c2"
  proof (rule impI, elim conjE)
    assume "in_filePath a = Some []" "in_base64Content a = Some []"
    then show ?c2
      by (simp add: processAttachments_after [OF assms] missing_source)
  qed
  have three: "?h3 \<longrightarrow> ?c3"
  proof (rule impI, elim conjE)
    assume d: "attachmentSchema_issues a = [] \<or> in_filePath a = None \<or> in_filePath a = Some []"
      and c: "in_base64Content a = Some b" "b \<noteq> []" and n: "in_fileName a = Some []"
    from n have n': "in_fileName a = None \<or> in_fileName a = Some []" by simp
    show ?c3
      by (simp add: processAttachments_after [OF assms] deliverable_by_content [OF d c n'])
  qed
  from one two three show ?thesis by (intro conjI)
qed

theorem empty_strings_are_absent_witness:
  "processLoop sampleWorld [] [] [] = (Inr [], [])
   \<and> processAttachments sampleWorld []
        (Some ([] @ [\<lparr> in_fileName = Some ''a.pdf'', in_mimeType = None,
                        in_filePath = Some [], in_base64Content = Some ''QUJD'' \<rparr>]))
     = (Inr [\<lparr> pa_fileName = ''a.pdf'', pa_mimeType = ''application/pdf'',
                pa_base64Content = ''QUJD'' \<rparr>], [])
   \<and> processAttachments sampleWorld []
        (Some ([] @ [\<lparr> in_fileName = None, in_mimeType = None,
                        in_filePath = Some [], in_base64Content = Some ''QUJD'' \<rparr>]))
     = (Inl (Error None
          ''Failed to process attachment: fileName is required when using base64Content''), [])
   \<and> processAttachments sampleWorld []
        (Some ([] @ \<lparr> in_fileName = Some ''a.pdf'', in_mimeType = None,
                       in_filePath = Some [], in_base64Content = Some [] \<rparr> # []))
     = (Inl (Error None
          ''Failed to process attachment: Either filePath or base64Content must be provided''), [])
   \<and> processAttachments sampleWorld []
        (Some ([] @ \<lparr> in_fileName = Some [], in_mimeType = None,
                       in_filePath = None, in_base64Content = Some ''QUJD'' \<rparr> # []))
     = (Inl (Error None
          ''Failed to process attachment: fileName is required when using base64Content''), [])"
proof -
  have h: "processLoop sampleWorld [] [] [] = (Inr [], [])" by simp
  from empty_strings_are_absent [OF h,
      of "\<lparr> in_fileName = Some ''a.pdf'', in_mimeType = None,
             in_filePath = Some [], in_base64Content = Some ''QUJD'' \<rparr>" "''QUJD''"]
  have a: "processAttachments sampleWorld []
        (Some ([] @ [\<lparr> in_fileName = Some ''a.pdf'', in_mimeType = None,
                        in_filePath = Some [], in_base64Content = Some ''QUJD'' \<rparr>]))
     = (Inr [\<lparr> pa_fileName = ''a.pdf'', pa_mimeType = ''application/pdf'',
                pa_base64Content = ''QUJD'' \<rparr>], [])"
    by (simp add: sampleWorld_def)
  from empty_strings_are_absent [OF h,
      of "\<lparr> in_fileName = None, in_mimeType = None,
             in_filePath = Some [], in_base64Content = Some ''QUJD'' \<rparr>" "''QUJD''"]
  have a': "processAttachments sampleWorld []
        (Some ([] @ [\<lparr> in_fileName = None, in_mimeType = None,
                        in_filePath = Some [], in_base64Content = Some ''QUJD'' \<rparr>]))
     = (Inl (Error None
          ''Failed to process attachment: fileName is required when using base64Content''), [])"
    by simp
  from empty_strings_are_absent [OF h,
      of "\<lparr> in_fileName = Some ''a.pdf'', in_mimeType = None,
             in_filePath = Some [], in_base64Content = Some [] \<rparr>" _ "[]"]
  have b: "processAttachments sampleWorld []
        (Some ([] @ \<lparr> in_fileName = Some ''a.pdf'', in_mimeType = None,
                       in_filePath = Some [], in_base64Content = Some [] \<rparr> # []))
     = (Inl (Error None
          ''Failed to process attachment: Either filePath or base64Content must be provided''), [])"
    by simp
  from empty_strings_are_absent [OF h,
      of "\<lparr> in_fileName = Some [], in_mimeType = None,
             in_filePath = None, in_base64Content = Some ''QUJD'' \<rparr>" "''QUJD''" "[]"]
  have c: "processAttachments sampleWorld []
        (Some ([] @ \<lparr> in_fileName = Some [], in_mimeType = None,
                       in_filePath = None, in_base64Content = Some ''QUJD'' \<rparr> # []))
     = (Inl (Error None
          ''Failed to process attachment: fileName is required when using base64Content''), [])"
    by simp
  from h a a' b c show ?thesis by (intro conjI)
qed

section \<open>Upload Executor\<close>










lemma filterBoolean_lines:
  "\<forall>l\<in>set ls. l \<noteq> [] \<Longrightarrow> filterBoolean (map Some ls @ rest) = ls @ filterBoolean rest"
  by (induction ls) (simp_all add: filterBoolean_def)

lemma filterBoolean_tail:
  "filterBoolean [attachmentsLine rs, linkLine deepLink] =
     (if rs = [] then []
      else [''Attachments: '' @
              js_join '', '' (map (\<lambda>r. r_fileName r @ '' ('' @ r_status r @ '')'') rs)])
     @ (if truthy deepLink then [''Link to view: '' @ the deepLink] else [])"
  by (simp add: filterBoolean_def attachmentsLine_def linkLine_def)

lemma bankTransactionText_eq:
  "bankTransactionText bt rs deepLink =
     js_join [CHR 0x0A]
       (bankTransactionLines bt
        @ (if rs = [] then []
           else [''Attachments: '' @
                   js_join '', '' (map (\<lambda>r. r_fileName r @ '' ('' @ r_status r @ '')'') rs)])
        @ (if truthy deepLink then [''Link to view: '' @ the deepLink] else []))"
proof -
  have "\<forall>l\<in>set (bankTransactionLines bt). l \<noteq> []"
    by (simp add: bankTransactionLines_def)
  from filterBoolean_lines [OF this] show ?thesis
    by (simp only: bankTransactionText_def filterBoolean_tail)
qed




lemma js_join_concat:
  "xs \<noteq> [] \<Longrightarrow> js_join sep xs = hd xs @ concat (map (\<lambda>x. sep @ x) (tl xs))"
proof (induction sep xs rule: js_join.induct)
  case (1 sep)
  then show ?case by simp
next
  case (2 sep x)
  show ?case by simp
next
  case (3 sep x y ys)
  then show ?case by simp
qed

lemma js_join_map_concat:
  "rs \<noteq> [] \<Longrightarrow>
   js_join sep (map f rs) = f (hd rs) @ concat (map (\<lambda>r. sep @ f r) (tl rs))"
  by (simp add: js_join_concat hd_map map_tl comp_def)

lemma tpl_case: "tpl x = (case x of None \<Rightarrow> ''undefined'' | Some s \<Rightarrow> s)"
  by (cases x) simp_all

lemma bankTransactionText_explicit:
  assumes "rs \<noteq> []"
  shows "bankTransactionText bt rs deepLink =
     ''Bank transaction successfully:'' @ [CHR 0x0A]
     @ ''ID: '' @ (case bankTransactionID bt of None \<Rightarrow> ''undefined'' | Some s \<Rightarrow> s) @ [CHR 0x0A]
     @ ''Date: '' @ (case bt_date bt of None \<Rightarrow> ''undefined'' | Some s \<Rightarrow> s) @ [CHR 0x0A]
     @ ''Contact: '' @ (case bt_contactName bt of None \<Rightarrow> ''undefined'' | Some s \<Rightarrow> s)
     @ [CHR 0x0A]
     @ ''Total: '' @ (case bt_total bt of None \<Rightarrow> ''undefined'' | Some s \<Rightarrow> s) @ [CHR 0x0A]
     @ ''Status: '' @ (case bt_status bt of None \<Rightarrow> ''undefined'' | Some s \<Rightarrow> s) @ [CHR 0x0A]
     @ ''Attachments: ''
     @ (r_fileName (hd rs) @ '' ('' @ r_status (hd rs) @ '')'')
     @ concat (map (\<lambda>r. '', '' @ r_fileName r @ '' ('' @ r_status r @ '')'') (tl rs))
     @ (if deepLink = None \<or> deepLink = Some [] then []
        else [CHR 0x0A] @ ''Link to view: '' @ the deepLink)"
proof -
  have t: "truthy deepLink \<longleftrightarrow> \<not> (deepLink = None \<or> deepLink = Some [])"
    by (cases deepLink) simp_all
  show ?thesis
    using assms
    by (simp add: bankTransactionText_eq bankTransactionLines_def tpl_case t js_join_map_concat)
qed





lemma bankTransactionLink_cases:
  assumes "bankTransactionID bt = Some ident" and "ident \<noteq> []"
    and "(bt_bankAccountID bt = None \<or> bt_bankAccountID bt = Some []) \<and> link = []
         \<or> (\<exists>acc. bt_bankAccountID bt = Some acc \<and> acc \<noteq> []
                \<and> bankTransactionDeepLink w acc ident = Inr link)"
  shows "\<exists>deepLink. bankTransactionLink w bt = Inr deepLink
           \<and> (if deepLink = None \<or> deepLink = Some [] then []
               else [CHR 0x0A] @ ''Link to view: '' @ the deepLink)
             = (if link = [] then [] else [CHR 0x0A] @ ''Link to view: '' @ link)"
  using assms(3)
proof (elim disjE conjE exE)
  assume "bt_bankAccountID bt = None" "link = []"
  then show ?thesis by (simp add: bankTransactionLink_def)
next
  assume "bt_bankAccountID bt = Some []" "link = []"
  then show ?thesis by (simp add: bankTransactionLink_def)
next
  fix acc assume "bt_bankAccountID bt = Some acc" "acc \<noteq> []"
    "bankTransactionDeepLink w acc ident = Inr link"
  then show ?thesis using assms(1,2) by (simp add: bankTransactionLink_def)
qed



section \<open>Tool Facade: sequencing\<close>

lemma creditNoteText_eq:
  "creditNoteText cn rs deepLink =
     js_join [CHR 0x0A]
       (creditNoteLines cn
        @ (if rs = [] then []
           else [''Attachments: '' @
                   js_join '', '' (map (\<lambda>r. r_fileName r @ '' ('' @ r_status r @ '')'') rs)])
        @ (if truthy deepLink then [''Link to view: '' @ the deepLink] else []))"
proof -
  have "\<forall>l\<in>set (creditNoteLines cn). l \<noteq> []"
    by (simp add: creditNoteLines_def)
  from filterBoolean_lines [OF this] show ?thesis
    by (simp only: creditNoteText_def filterBoolean_tail)
qed

lemma awaitDeepLink_no_upload:
  "awaitDeepLink w tr ty ident = (r, tr1) \<Longrightarrow> filter isUpload tr1 = filter isUpload tr"
  by (auto simp add: awaitDeepLink_def split: if_splits sum.splits)

lemma bank_skipped:
  "isError res \<or> result res = None
     \<or> (\<exists>bt. result res = Some bt \<and> \<not> attachmentsWanted atts (bankTransactionID bt)) \<Longrightarrow>
   snd (CreateBankTransactionTool w res atts tr) = tr"
  by (auto simp add: CreateBankTransactionTool_def bankTransactionAttachments_def
        split: option.splits sum.splits)

lemma creditNote_skipped:
  "isError res \<or> result res = None
     \<or> (\<exists>cn. result res = Some cn \<and> \<not> attachmentsWanted atts (creditNoteID cn)) \<Longrightarrow>
   filter isUpload (snd (CreateCreditNoteTool w res atts tr)) = filter isUpload tr"
  by (auto simp add: CreateCreditNoteTool_def creditNoteAttachments_def
        dest: awaitDeepLink_no_upload split: option.splits sum.splits prod.splits)

lemma wanted_iff:
  "attachmentsWanted atts ident \<longleftrightarrow> (\<exists>as. atts = Some as \<and> as \<noteq> []) \<and> truthy ident"
  by (cases atts) (simp_all add: attachmentsWanted_def)

text \<open>
  Claim C2. When the attachments before it have been processed and processing one item
  fails, \<^verbatim>\<open>processAttachments\<close> raises one error, whose message is the item's failure message
  after \<^verbatim>\<open>Failed to process attachment: \<close>; it returns no list and touches no later item.
  At a call site the error becomes the single entry \<^verbatim>\<open>unknown\<close>, \<^verbatim>\<open>failed\<close>, and the
  tool \<^verbatim>\<open>create-bank-transaction\<close> still returns one text: the heading, the identifier
  and the other fields of the entity, the line \<^verbatim>\<open>Attachments: unknown (failed)\<close> and the
  link.
\<close>

theorem normalizer_failure_aborts_batch:
  assumes "processLoop w tr [] pre = (Inr acc, tr1)"
    and "processAttachment w tr1 a = (Inl e, tr2)"
  shows "processAttachments w tr (Some (pre @ a # post)) =
           (Inl (Error None (''Failed to process attachment: '' @ errorMessage e)), tr2)
       \<and> processAndUpload w call tr (Some (pre @ a # post)) =
           ([\<lparr> r_fileName = ''unknown'', r_status = ''failed'',
               r_error = Some (''Processing failed: Failed to process attachment: ''
                                 @ errorMessage e) \<rparr>], tr2)
       \<and> (\<not> isError res \<and> result res = Some bt
            \<and> bankTransactionID bt = Some ident \<and> ident \<noteq> []
            \<and> ((bt_bankAccountID bt = None \<or> bt_bankAccountID bt = Some []) \<and> link = []
                \<or> (\<exists>account. bt_bankAccountID bt = Some account \<and> account \<noteq> []
                       \<and> bankTransactionDeepLink w account ident = Inr link)) \<longrightarrow>
          CreateBankTransactionTool w res (Some (pre @ a # post)) tr =
            (Inr \<lparr> content = [\<lparr> c_type = ''text'', c_text =
               ''Bank transaction successfully:'' @ [CHR 0x0A]
               @ ''ID: '' @ ident @ [CHR 0x0A]
               @ ''Date: '' @ (case bt_date bt of None \<Rightarrow> ''undefined'' | Some s \<Rightarrow> s)
               @ [CHR 0x0A]
               @ ''Contact: ''
               @ (case bt_contactName bt of None \<Rightarrow> ''undefined'' | Some s \<Rightarrow> s)
               @ [CHR 0x0A]
               @ ''Total: '' @ (case bt_total bt of None \<Rightarrow> ''undefined'' | Some s \<Rightarrow> s)
               @ [CHR 0x0A]
               @ ''Status: '' @ (case bt_status bt of None \<Rightarrow> ''undefined'' | Some s \<Rightarrow> s)
               @ [CHR 0x0A]
               @ ''Attachments: unknown (failed)''
               @ (if link = [] then [] else [CHR 0x0A] @ ''Link to view: '' @ link)
             \<rparr>] \<rparr>,
             tr2))"
  (is "?raise \<and> ?entry \<and> (?toolH \<longrightarrow> ?toolC)")
proof -
  have raise: ?raise
    by (simp add: processAttachments_after [OF assms(1)] assms(2))
  have any: "processAndUpload w c tr (Some (pre @ a # post)) =
           ([\<lparr> r_fileName = ''unknown'', r_status = ''failed'',
               r_error = Some (''Processing failed: Failed to process attachment: ''
                                 @ errorMessage e) \<rparr>], tr2)" for c
    by (simp add: processAndUpload_def raise)
  have entry: ?entry by (rule any)
  have tool: "?toolH \<longrightarrow> ?toolC"
  proof (rule impI, elim conjE)
    assume a: "\<not> isError res" "result res = Some bt"
      and ident: "bankTransactionID bt = Some ident" "ident \<noteq> []"
      and lk: "(bt_bankAccountID bt = None \<or> bt_bankAccountID bt = Some []) \<and> link = []
                \<or> (\<exists>account. bt_bankAccountID bt = Some account \<and> account \<noteq> []
                       \<and> bankTransactionDeepLink w account ident = Inr link)"
    from bankTransactionLink_cases [OF ident lk]
    obtain deepLink where d: "bankTransactionLink w bt = Inr deepLink"
      and dt: "(if deepLink = None \<or> deepLink = Some [] then []
               else [CHR 0x0A] @ ''Link to view: '' @ the deepLink)
             = (if link = [] then [] else [CHR 0x0A] @ ''Link to view: '' @ link)"
      by (elim exE conjE)
    let ?rs = "[\<lparr> r_fileName = ''unknown'', r_status = ''failed'',
               r_error = Some (''Processing failed: Failed to process attachment: ''
                                 @ errorMessage e) \<rparr>]"
    have att: "bankTransactionAttachments w tr bt (Some (pre @ a # post)) = (?rs, tr2)"
      using ident by (simp add: bankTransactionAttachments_def attachmentsWanted_def any)
    have r: "CreateBankTransactionTool w res (Some (pre @ a # post)) tr =
            (Inr \<lparr> content = [\<lparr> c_type = ''text'',
                                 c_text = bankTransactionText bt ?rs deepLink \<rparr>] \<rparr>, tr2)"
      using a d by (simp add: CreateBankTransactionTool_def att textResult_def)
    have ne: "?rs \<noteq> []" by simp
    have "bankTransactionText bt ?rs deepLink =
               ''Bank transaction successfully:'' @ [CHR 0x0A]
               @ ''ID: '' @ ident @ [CHR 0x0A]
               @ ''Date: '' @ (case bt_date bt of None \<Rightarrow> ''undefined'' | Some s \<Rightarrow> s)
               @ [CHR 0x0A]
               @ ''Contact: ''
               @ (case bt_contactName bt of None \<Rightarrow> ''undefined'' | Some s \<Rightarrow> s)
               @ [CHR 0x0A]
               @ ''Total: '' @ (case bt_total bt of None \<Rightarrow> ''undefined'' | Some s \<Rightarrow> s)
               @ [CHR 0x0A]
               @ ''Status: '' @ (case bt_status bt of None \<Rightarrow> ''undefined'' | Some s \<Rightarrow> s)
               @ [CHR 0x0A]
               @ ''Attachments: unknown (failed)''
               @ (if link = [] then [] else [CHR 0x0A] @ ''Link to view: '' @ link)"
      unfolding bankTransactionText_explicit [OF ne] dt by (simp add: ident)
    with r show ?toolC by (simp only:)
  qed
  from raise entry tool show ?thesis by (intro conjI)
qed

theorem normalizer_failure_aborts_batch_witness:
  "processLoop sampleWorld [] [] [inlinePdf ''a.pdf'']
     = (Inr [\<lparr> pa_fileName = ''a.pdf'', pa_mimeType = ''application/pdf'',
                pa_base64Content = ''QUJD'' \<rparr>], [])
   \<and> processAttachment sampleWorld [] (inlinePdf [])
     = (Inl (Error None ''fileName is required when using base64Content''), [])
   \<and> processAttachments sampleWorld []
        (Some ([inlinePdf ''a.pdf''] @ inlinePdf [] # [inlinePdf ''c.pdf'']))
     = (Inl (Error None
          ''Failed to process attachment: fileName is required when using base64Content''), [])
   \<and> CreateBankTransactionTool sampleWorld (success sampleBankTransaction)
        (Some ([inlinePdf ''a.pdf''] @ inlinePdf [] # [inlinePdf ''c.pdf''])) []
     = (Inr \<lparr> content = [\<lparr> c_type = ''text'', c_text =
               ''Bank transaction successfully:'' @ [CHR 0x0A]
               @ ''ID: bt-1'' @ [CHR 0x0A]
               @ ''Date: 2024-05-01'' @ [CHR 0x0A]
               @ ''Contact: Acme'' @ [CHR 0x0A]
               @ ''Total: 120.5'' @ [CHR 0x0A]
               @ ''Status: AUTHORISED'' @ [CHR 0x0A]
               @ ''Attachments: unknown (failed)'' @ [CHR 0x0A]
               @ ''Link to view: https://go.xero.com/Bank/bt-1'' \<rparr>] \<rparr>, [])"
proof -
  have h1: "processLoop sampleWorld [] [] [inlinePdf ''a.pdf'']
     = (Inr [\<lparr> pa_fileName = ''a.pdf'', pa_mimeType = ''application/pdf'',
                pa_base64Content = ''QUJD'' \<rparr>], [])"
    by (simp add: processAttachment_def inlinePdf_def sampleWorld_def)
  have h2: "processAttachment sampleWorld [] (inlinePdf [])
     = (Inl (Error None ''fileName is required when using base64Content''), [])"
    by (simp add: processAttachment_def inlinePdf_def)
  note t = normalizer_failure_aborts_batch [OF h1 h2, where post = "[inlinePdf ''c.pdf'']"
      and res = "success sampleBankTransaction" and bt = sampleBankTransaction
      and ident = "''bt-1''" and link = "''https://go.xero.com/Bank/bt-1''"]
  from t [THEN conjunct1]
  have a: "processAttachments sampleWorld []
        (Some ([inlinePdf ''a.pdf''] @ inlinePdf [] # [inlinePdf ''c.pdf'']))
     = (Inl (Error None
          ''Failed to process attachment: fileName is required when using base64Content''), [])"
    by simp
  have res: "\<not> isError (success sampleBankTransaction)"
    "result (success sampleBankTransaction) = Some sampleBankTransaction"
    by (simp_all add: success_def)
  have bid: "bankTransactionID sampleBankTransaction = Some ''bt-1''"
    by (simp add: sampleBankTransaction_def)
  have blink: "bt_bankAccountID sampleBankTransaction = Some ''acc-1'' \<and> ''acc-1'' \<noteq> []
       \<and> bankTransactionDeepLink sampleWorld ''acc-1'' ''bt-1''
           = Inr ''https://go.xero.com/Bank/bt-1''"
    by (simp add: sampleBankTransaction_def sampleWorld_def)
  have bh: "(bt_bankAccountID sampleBankTransaction = None
               \<or> bt_bankAccountID sampleBankTransaction = Some [])
             \<and> ''https://go.xero.com/Bank/bt-1'' = []
          \<or> (\<exists>account. bt_bankAccountID sampleBankTransaction = Some account \<and> account \<noteq> []
                 \<and> bankTransactionDeepLink sampleWorld account ''bt-1''
                     = Inr ''https://go.xero.com/Bank/bt-1'')"
    by (rule disjI2, rule exI [of _ "''acc-1''"], rule blink)
  note u = t [THEN conjunct2, THEN conjunct2, rule_format,
      OF conjI [OF res(1) conjI [OF res(2) conjI [OF bid conjI [OF _ bh]]]]]
  have b: "CreateBankTransactionTool sampleWorld (success sampleBankTransaction)
        (Some ([inlinePdf ''a.pdf''] @ inlinePdf [] # [inlinePdf ''c.pdf''])) []
     = (Inr \<lparr> content = [\<lparr> c_type = ''text'', c_text =
               ''Bank transaction successfully:'' @ [CHR 0x0A]
               @ ''ID: bt-1'' @ [CHR 0x0A]
               @ ''Date: 2024-05-01'' @ [CHR 0x0A]
               @ ''Contact: Acme'' @ [CHR 0x0A]
               @ ''Total: 120.5'' @ [CHR 0x0A]
               @ ''Status: AUTHORISED'' @ [CHR 0x0A]
               @ ''Attachments: unknown (failed)'' @ [CHR 0x0A]
               @ ''Link to view: https://go.xero.com/Bank/bt-1'' \<rparr>] \<rparr>, [])"
    using u by (simp add: sampleBankTransaction_def)
  from h1 h2 a b show ?thesis by (intro conjI)
qed

text \<open>
  Claim C9. An upload call is made only if the entity handler reported success, the
  entity has a non-empty identifier and the list of attachments is not empty. When the
  handler reported an error the tool returns the error text and calls nothing; when the
  list is absent or empty or the identifier is missing, no attachment result is produced
  and the text is made of the lines of the entity and, if there is one, the link: none of
  its lines starts with \<^verbatim>\<open>Attachments:\<close>. Stated for \<^verbatim>\<open>create-bank-transaction\<close>, which
  normalises first, and for the \<^verbatim>\<open>create-credit-note\<close> that uploads directly.
\<close>

theorem attachments_only_after_success:
  "(filter isUpload (snd (CreateBankTransactionTool w res atts tr)) \<noteq> filter isUpload tr \<longrightarrow>
      \<not> isError res
      \<and> (\<exists>bt as. result res = Some bt \<and> truthy (bankTransactionID bt)
                  \<and> atts = Some as \<and> as \<noteq> []))
   \<and> (isError res \<longrightarrow>
        CreateBankTransactionTool w res atts tr =
          (Inr (textResult (''Error creating bank transaction: '' @ tplNull (error res))), tr))
   \<and> (\<not> isError res \<and> result res = Some bt
        \<and> (atts = None \<or> atts = Some [] \<or> \<not> truthy (bankTransactionID bt))
        \<and> bankTransactionLink w bt = Inr deepLink \<longrightarrow>
        bankTransactionAttachments w tr bt atts = ([], tr)
        \<and> CreateBankTransactionTool w res atts tr =
            (Inr (textResult (js_join [CHR 0x0A]
                    (bankTransactionLines bt
                     @ (if truthy deepLink then [''Link to view: '' @ the deepLink] else [])))),
             tr)
        \<and> (\<forall>l \<in> set (bankTransactionLines bt
                        @ (if truthy deepLink then [''Link to view: '' @ the deepLink] else [])).
              \<not> startsWith l ''Attachments:''))
   \<and> (filter isUpload (snd (CreateCreditNoteTool w res' atts' tr)) \<noteq> filter isUpload tr \<longrightarrow>
      \<not> isError res'
      \<and> (\<exists>cn as. result res' = Some cn \<and> truthy (creditNoteID cn)
                  \<and> atts' = Some as \<and> as \<noteq> []))
   \<and> (isError res' \<longrightarrow>
        CreateCreditNoteTool w res' atts' tr =
          (Inr (textResult (''Error creating credit note: '' @ tplNull (error res'))), tr))
   \<and> (\<not> isError res' \<and> result res' = Some cn
        \<and> (atts' = None \<or> atts' = Some [] \<or> \<not> truthy (creditNoteID cn))
        \<and> awaitDeepLink w tr CREDIT_NOTE (creditNoteID cn) = (Inr deepLink', tr1) \<longrightarrow>
        creditNoteAttachments w tr1 cn atts' = ([], tr1)
        \<and> CreateCreditNoteTool w res' atts' tr =
            (Inr (textResult (js_join [CHR 0x0A]
                    (creditNoteLines cn
                     @ (if truthy deepLink' then [''Link to view: '' @ the deepLink'] else [])))),
             tr1)
        \<and> (\<forall>l \<in> set (creditNoteLines cn
                        @ (if truthy deepLink' then [''Link to view: '' @ the deepLink'] else [])).
              \<not> startsWith l ''Attachments:''))"
  (is "?b1 \<and> ?b2 \<and> ?b3 \<and> ?c1 \<and> ?c2 \<and> ?c3")
proof -
  have b1: ?b1
  proof (intro impI)
    assume d: "filter isUpload (snd (CreateBankTransactionTool w res atts tr))
                 \<noteq> filter isUpload tr"
    with bank_skipped [of res atts w tr]
    have n: "\<not> (isError res \<or> result res = None
       \<or> (\<exists>bt. result res = Some bt \<and> \<not> attachmentsWanted atts (bankTransactionID bt)))"
      by metis
    then obtain bt where r: "result res = Some bt" by (cases "result res") simp_all
    with n have "attachmentsWanted atts (bankTransactionID bt)" by simp
    with n r show "\<not> isError res
      \<and> (\<exists>bt as. result res = Some bt \<and> truthy (bankTransactionID bt)
                  \<and> atts = Some as \<and> as \<noteq> [])"
      by (simp add: wanted_iff)
  qed
  have b2: ?b2 by (simp add: CreateBankTransactionTool_def)
  have b3: ?b3
  proof (intro impI, elim conjE)
    assume a: "\<not> isError res" "result res = Some bt"
      "atts = None \<or> atts = Some [] \<or> \<not> truthy (bankTransactionID bt)"
      "bankTransactionLink w bt = Inr deepLink"
    from a(3) have nw: "\<not> attachmentsWanted atts (bankTransactionID bt)"
      by (auto simp add: wanted_iff)
    then have att: "bankTransactionAttachments w tr bt atts = ([], tr)"
      by (simp add: bankTransactionAttachments_def)
    have tool: "CreateBankTransactionTool w res atts tr =
            (Inr (textResult (js_join [CHR 0x0A]
                    (bankTransactionLines bt
                     @ (if truthy deepLink then [''Link to view: '' @ the deepLink] else [])))),
             tr)"
      using a(1,2,4) by (simp add: CreateBankTransactionTool_def att bankTransactionText_eq)
    have lines: "\<forall>l \<in> set (bankTransactionLines bt
                        @ (if truthy deepLink then [''Link to view: '' @ the deepLink] else [])).
              \<not> startsWith l ''Attachments:''"
      by (simp add: bankTransactionLines_def)
    from att tool lines
    show "bankTransactionAttachments w tr bt atts = ([], tr)
        \<and> CreateBankTransactionTool w res atts tr =
            (Inr (textResult (js_join [CHR 0x0A]
                    (bankTransactionLines bt
                     @ (if truthy deepLink then [''Link to view: '' @ the deepLink] else [])))),
             tr)
        \<and> (\<forall>l \<in> set (bankTransactionLines bt
                        @ (if truthy deepLink then [''Link to view: '' @ the deepLink] else [])).
              \<not> startsWith l ''Attachments:'')"
      by (intro conjI)
  qed
  have c1: ?c1
  proof (intro impI)
    assume d: "filter isUpload (snd (CreateCreditNoteTool w res' atts' tr))
                 \<noteq> filter isUpload tr"
    with creditNote_skipped [of res' atts' w tr]
    have n: "\<not> (isError res' \<or> result res' = None
       \<or> (\<exists>cn. result res' = Some cn \<and> \<not> attachmentsWanted atts' (creditNoteID cn)))"
      by metis
    then obtain cn where r: "result res' = Some cn" by (cases "result res'") simp_all
    with n have "attachmentsWanted atts' (creditNoteID cn)" by simp
    with n r show "\<not> isError res'
      \<and> (\<exists>cn as. result res' = Some cn \<and> truthy (creditNoteID cn)
                  \<and> atts' = Some as \<and> as \<noteq> [])"
      by (simp add: wanted_iff)
  qed
  have c2: ?c2 by (simp add: CreateCreditNoteTool_def)
  have c3: ?c3
  proof (intro impI, elim conjE)
    assume a: "\<not> isError res'" "result res' = Some cn"
      "atts' = None \<or> atts' = Some [] \<or> \<not> truthy (creditNoteID cn)"
      "awaitDeepLink w tr CREDIT_NOTE (creditNoteID cn) = (Inr deepLink', tr1)"
    from a(3) have nw: "\<not> attachmentsWanted atts' (creditNoteID cn)"
      by (auto simp add: wanted_iff)
    then have att: "creditNoteAttachments w tr1 cn atts' = ([], tr1)"
      by (simp add: creditNoteAttachments_def)
    have tool: "CreateCreditNoteTool w res' atts' tr =
            (Inr (textResult (js_join [CHR 0x0A]
                    (creditNoteLines cn
                     @ (if truthy deepLink' then [''Link to view: '' @ the deepLink'] else [])))),
             tr1)"
      using a(1,2,4) by (simp add: CreateCreditNoteTool_def att creditNoteText_eq)
    have lines: "\<forall>l \<in> set (creditNoteLines cn
                        @ (if truthy deepLink' then [''Link to view: '' @ the deepLink'] else [])).
              \<not> startsWith l ''Attachments:''"
      by (simp add: creditNoteLines_def)
    from att tool lines
    show "creditNoteAttachments w tr1 cn atts' = ([], tr1)
        \<and> CreateCreditNoteTool w res' atts' tr =
            (Inr (textResult (js_join [CHR 0x0A]
                    (creditNoteLines cn
                     @ (if truthy deepLink' then [''Link to view: '' @ the deepLink'] else [])))),
             tr1)
        \<and> (\<forall>l \<in> set (creditNoteLines cn
                        @ (if truthy deepLink' then [''Link to view: '' @ the deepLink'] else [])).
              \<not> startsWith l ''Attachments:'')"
      by (intro conjI)
  qed
  from b1 b2 b3 c1 c2 c3 show ?thesis by (intro conjI)
qed

theorem attachments_only_after_success_witness:
  "CreateBankTransactionTool sampleWorld (success sampleBankTransaction) None []
     = (Inr (textResult (js_join [CHR 0x0A]
               [''Bank transaction successfully:'', ''ID: bt-1'', ''Date: 2024-05-01'',
                ''Contact: Acme'', ''Total: 120.5'', ''Status: AUTHORISED'',
                ''Link to view: https://go.xero.com/Bank/bt-1''])), [])
   \<and> CreateBankTransactionTool sampleWorld (failure ''Contact not found'')
        (Some [inlinePdf ''a.pdf'']) []
     = (Inr (textResult ''Error creating bank transaction: Contact not found''), [])
   \<and> filter isUpload (snd (CreateBankTransactionTool sampleWorld (success sampleBankTransaction)
                             (Some [inlinePdf ''a.pdf'']) [])) \<noteq> filter isUpload []
   \<and> truthy (bankTransactionID sampleBankTransaction)
   \<and> CreateCreditNoteTool sampleWorld (success sampleCreditNote) (Some []) []
     = (Inr (textResult (js_join [CHR 0x0A]
               [''Credit note created successfully:'', ''ID: cn-1'', ''Contact: Acme'',
                ''Total: 40'', ''Status: DRAFT'',
                ''Link to view: https://go.xero.com/view/cn-1''])),
        [GetDeepLink CREDIT_NOTE ''cn-1''])"
proof -
  have link: "bankTransactionLink sampleWorld sampleBankTransaction
                = Inr (Some ''https://go.xero.com/Bank/bt-1'')"
    by (simp add: bankTransactionLink_def sampleBankTransaction_def sampleWorld_def)
  have res: "\<not> isError (success sampleBankTransaction)"
    "result (success sampleBankTransaction) = Some sampleBankTransaction"
    by (simp_all add: success_def)
  note t1 = attachments_only_after_success [where w = sampleWorld
      and res = "success sampleBankTransaction" and atts = None and tr = "[]"
      and bt = sampleBankTransaction and deepLink = "Some ''https://go.xero.com/Bank/bt-1''"]
  from t1 [THEN conjunct2, THEN conjunct2, THEN conjunct1] res link
  have a: "CreateBankTransactionTool sampleWorld (success sampleBankTransaction) None []
     = (Inr (textResult (js_join [CHR 0x0A]
               [''Bank transaction successfully:'', ''ID: bt-1'', ''Date: 2024-05-01'',
                ''Contact: Acme'', ''Total: 120.5'', ''Status: AUTHORISED'',
                ''Link to view: https://go.xero.com/Bank/bt-1''])), [])"
    by (simp add: bankTransactionLines_def sampleBankTransaction_def)
  note t2 = attachments_only_after_success [where w = sampleWorld
      and res = "failure ''Contact not found''" and atts = "Some [inlinePdf ''a.pdf'']"
      and tr = "[]"]
  from t2 [THEN conjunct2, THEN conjunct1]
  have b: "CreateBankTransactionTool sampleWorld (failure ''Contact not found'')
        (Some [inlinePdf ''a.pdf'']) []
     = (Inr (textResult ''Error creating bank transaction: Contact not found''), [])"
    by (simp add: failure_def)
  have c: "filter isUpload (snd (CreateBankTransactionTool sampleWorld
              (success sampleBankTransaction) (Some [inlinePdf ''a.pdf'']) []))
            \<noteq> filter isUpload []"
    by (simp add: CreateBankTransactionTool_def success_def bankTransactionLink_def
          bankTransactionAttachments_def attachmentsWanted_def processAndUpload_def
          processAttachments_def processAttachment_def inlinePdf_def Let_def
          sampleBankTransaction_def sampleWorld_def)
  note t3 = attachments_only_after_success [where w = sampleWorld
      and res = "success sampleBankTransaction" and atts = "Some [inlinePdf ''a.pdf'']"
      and tr = "[]"]
  from t3 [THEN conjunct1] c have d: "truthy (bankTransactionID sampleBankTransaction)"
    by (simp add: success_def)
  have res': "\<not> isError (success sampleCreditNote)"
    "result (success sampleCreditNote) = Some sampleCreditNote"
    by (simp_all add: success_def)
  have dl: "awaitDeepLink sampleWorld [] CREDIT_NOTE (creditNoteID sampleCreditNote)
              = (Inr (Some ''https://go.xero.com/view/cn-1''), [GetDeepLink CREDIT_NOTE ''cn-1''])"
    by (simp add: awaitDeepLink_def sampleCreditNote_def sampleWorld_def)
  note t4 = attachments_only_after_success [where w = sampleWorld
      and res' = "success sampleCreditNote" and atts' = "Some []" and tr = "[]"
      and cn = sampleCreditNote and deepLink' = "Some ''https://go.xero.com/view/cn-1''"
      and ?tr1.0 = "[GetDeepLink CREDIT_NOTE ''cn-1'']"]
  from t4 [THEN conjunct2, THEN conjunct2, THEN conjunct2, THEN conjunct2, THEN conjunct2]
    res' dl
  have e: "CreateCreditNoteTool sampleWorld (success sampleCreditNote) (Some []) []
     = (Inr (textResult (js_join [CHR 0x0A]
               [''Credit note created successfully:'', ''ID: cn-1'', ''Contact: Acme'',
                ''Total: 40'', ''Status: DRAFT'',
                ''Link to view: https://go.xero.com/view/cn-1''])),
        [GetDeepLink CREDIT_NOTE ''cn-1''])"
    by (simp add: creditNoteLines_def sampleCreditNote_def)
  from a b c d e show ?thesis by (intro conjI)
qed

section \<open>Tool Facade: what leaves a handler\<close>

text \<open>
  The handler of \<^verbatim>\<open>create-account\<close> wraps its whole body in \<^verbatim>\<open>try\<close>: it returns a text
  whatever happens.
\<close>

lemma createAccountTry_shape:
  "createAccountTry w args tr = (Inr r, tr') \<Longrightarrow> \<exists>t. r = textResult t"
  unfolding createAccountTry_def Let_def
  by (cases "createXeroAccount w tr args"; cases "isError (fst (createXeroAccount w tr args))";
      cases "result (fst (createXeroAccount w tr args))") auto

lemma CreateAccountTool_always_returns:
  "\<exists>t tr'. CreateAccountTool w args tr = (Inr (textResult t), tr')"
proof -
  obtain r tr' where c: "createAccountTry w args tr = (r, tr')"
    by (cases "createAccountTry w args tr")
  show ?thesis
  proof (cases r)
    case (Inl e)
    with c have "CreateAccountTool w args tr =
        (Inr (textResult
               (''Error '' @ (if truthy (arg_accountId args) then ''updating'' else ''creating'')
                  @ '' account: '' @ errorMessage (ensureError w e))), tr')"
      by (simp add: CreateAccountTool_def)
    then show ?thesis by (intro exI)
  next
    case (Inr x)
    with c createAccountTry_shape [of w args tr x tr'] obtain t where "x = textResult t" by auto
    with c Inr have "CreateAccountTool w args tr = (Inr (textResult t), tr')"
      by (simp add: CreateAccountTool_def)
    then show ?thesis by (intro exI)
  qed
qed

text \<open>
  The handlers of \<^verbatim>\<open>update-invoice\<close> and \<^verbatim>\<open>create-bank-transaction\<close> have no such \<^verbatim>\<open>try\<close>
  around the deep link: they throw exactly when the deep link does (or when a success
  envelope carries no entity).
\<close>

lemma UpdateInvoiceTool_throws_iff:
  "fst (UpdateInvoiceTool w res atts tr) = Inl e \<longleftrightarrow>
     \<not> isError res
     \<and> (result res = None \<and> e = nullTypeError ''invoiceID''
        \<or> (\<exists>invoice. result res = Some invoice \<and> truthy (invoiceID invoice)
              \<and> getDeepLink w tr INVOICE (the (invoiceID invoice)) = Inl e))"
  by (auto simp add: UpdateInvoiceTool_def awaitDeepLink_def
        split: option.splits sum.splits prod.splits if_splits)

lemma CreateBankTransactionTool_throws_iff:
  "fst (CreateBankTransactionTool w res atts tr) = Inl e \<longleftrightarrow>
     \<not> isError res
     \<and> (result res = None \<and> e = nullTypeError ''bankAccount''
        \<or> (\<exists>bt. result res = Some bt \<and> truthy (bt_bankAccountID bt)
              \<and> truthy (bankTransactionID bt)
              \<and> bankTransactionDeepLink w (the (bt_bankAccountID bt))
                   (the (bankTransactionID bt)) = Inl e))"
  by (auto simp add: CreateBankTransactionTool_def bankTransactionLink_def
        split: option.splits sum.splits prod.splits if_splits)

text \<open>
  Claim C4 says that no exception escapes a tool's handler. In \<^verbatim>\<open>update-invoice\<close> the
  invoice has been updated and the deep link cannot be built: the error of
  \<^verbatim>\<open>getDeepLink\<close> leaves the handler, and no text is returned.
\<close>

theorem UpdateInvoiceTool_deep_link_failure_escapes:
  "UpdateInvoiceTool noLinkWorld (success sampleInvoice) None []
     = (Inl (Error None ''Failed to retrieve organisation short code''),
        [GetDeepLink INVOICE ''inv-1''])"
  by (simp add: UpdateInvoiceTool_def awaitDeepLink_def success_def sampleInvoice_def
        noLinkWorld_def sampleWorld_def)

end
